theory Spec2Isabelle
  imports Main "HOL-Library.Word"
begin

unbundle bit_operations_syntax

section \<open>The quotactl dispatcher of fs/quota/quota.c\<close>

text \<open>
  A shallow embedding of \<^verbatim>\<open>fs/quota/quota.c\<close>: the permission check, the two record
  translators, the per-command helpers, the dispatcher \<^verbatim>\<open>do_quotactl\<close>, the broadcast
  sync, the legacy entry \<^verbatim>\<open>compat_quotactl\<close> and the system call itself.

  Everything the file calls but does not define (credentials, the security hook, the
  filesystem's \<^verbatim>\<open>quotactl_ops\<close> table, the mount table, user memory) is a field of an
  environment record or of the superblock, so every theorem holds for all of them.
\<close>

subsection \<open>Machine types\<close>

type_synonym u8 = "8 word"
type_synonym u16 = "16 word"
type_synonym u32 = "32 word"
type_synonym u64 = "64 word"

text \<open>Signed C integers are words too; \<open>sint\<close> and \<open>scast\<close> read them as two's complement.\<close>

type_synonym s32 = "32 word"
type_synonym s64 = "64 word"

text \<open>\<^verbatim>\<open>qid_t\<close> is \<^verbatim>\<open>__kernel_uid32_t\<close>; a user pointer is an address, \<open>0\<close> being NULL.\<close>

type_synonym qid_t = u32
type_synonym uaddr = nat

subsection \<open>Constants of the headers\<close>

text \<open>
  Modelled from the spec: the headers that declare the constants and structures used by
  \<^verbatim>\<open>quota.c\<close> (\<^verbatim>\<open>include/uapi/linux/quota.h\<close>, \<^verbatim>\<open>include/uapi/linux/dqblk_xfs.h\<close>,
  \<^verbatim>\<open>include/uapi/asm-generic/errno*.h\<close>, \<^verbatim>\<open>include/linux/quota.h\<close>) are not among the
  sources. The spec fixes their roles (two class maxima, one bit per field in two disjoint
  mask encodings, an all-fields-valid mask); the numeric values below are the ones of the
  Linux 3.10 user-space ABI. Return values are C \<^verbatim>\<open>int\<close>s, read as \<open>int\<close>.
\<close>

definition EPERM :: int where "EPERM = 1"
definition ESRCH :: int where "ESRCH = 3"
definition EFAULT :: int where "EFAULT = 14"
definition ENODEV :: int where "ENODEV = 19"
definition EINVAL :: int where "EINVAL = 22"
definition EROFS :: int where "EROFS = 30"
definition ENOSYS :: int where "ENOSYS = 38"

definition SUBCMDMASK :: u32 where "SUBCMDMASK = 0x00ff"
definition SUBCMDSHIFT :: nat where "SUBCMDSHIFT = 8"

definition QCMD :: "u32 \<Rightarrow> u32 \<Rightarrow> u32" where
  "QCMD cmd type = push_bit SUBCMDSHIFT cmd OR (type AND SUBCMDMASK)"

definition MAXQUOTAS :: int where "MAXQUOTAS = 2"
definition XQM_MAXQUOTAS :: int where "XQM_MAXQUOTAS = 3"
definition USRQUOTA :: int where "USRQUOTA = 0"
definition GRPQUOTA :: int where "GRPQUOTA = 1"

definition Q_SYNC :: u32 where "Q_SYNC = 0x800001"
definition Q_QUOTAON :: u32 where "Q_QUOTAON = 0x800002"
definition Q_QUOTAOFF :: u32 where "Q_QUOTAOFF = 0x800003"
definition Q_GETFMT :: u32 where "Q_GETFMT = 0x800004"
definition Q_GETINFO :: u32 where "Q_GETINFO = 0x800005"
definition Q_SETINFO :: u32 where "Q_SETINFO = 0x800006"
definition Q_GETQUOTA :: u32 where "Q_GETQUOTA = 0x800007"
definition Q_SETQUOTA :: u32 where "Q_SETQUOTA = 0x800008"

text \<open>\<^verbatim>\<open>XQM_CMD(x) = ('X' << 8) + x\<close> and \<^verbatim>\<open>XQM_COMMAND(x) = ((x & (0xff << 8)) == ('X' << 8))\<close>.\<close>

definition XQM_CMD :: "u32 \<Rightarrow> u32" where
  "XQM_CMD x = push_bit 8 0x58 + x"

definition XQM_COMMAND :: "u32 \<Rightarrow> bool" where
  "XQM_COMMAND x \<longleftrightarrow> (x AND push_bit 8 0xff) = push_bit 8 0x58"

definition Q_XQUOTAON :: u32 where "Q_XQUOTAON = XQM_CMD 1"
definition Q_XQUOTAOFF :: u32 where "Q_XQUOTAOFF = XQM_CMD 2"
definition Q_XGETQUOTA :: u32 where "Q_XGETQUOTA = XQM_CMD 3"
definition Q_XSETQLIM :: u32 where "Q_XSETQLIM = XQM_CMD 4"
definition Q_XGETQSTAT :: u32 where "Q_XGETQSTAT = XQM_CMD 5"
definition Q_XQUOTARM :: u32 where "Q_XQUOTARM = XQM_CMD 6"
definition Q_XQUOTASYNC :: u32 where "Q_XQUOTASYNC = XQM_CMD 7"
definition Q_XGETQSTATV :: u32 where "Q_XGETQSTATV = XQM_CMD 8"

text \<open>The legacy command words served by \<^verbatim>\<open>compat_quotactl\<close>.\<close>

definition QC_QUOTAON :: u32 where "QC_QUOTAON = 0x0100"
definition QC_QUOTAOFF :: u32 where "QC_QUOTAOFF = 0x0200"
definition QC_SYNC :: u32 where "QC_SYNC = 0x0600"
definition QC_SETQLIM :: u32 where "QC_SETQLIM = 0x0700"
definition QC_GETINFO :: u32 where "QC_GETINFO = 0x0900"
definition QC_SETINFO :: u32 where "QC_SETINFO = 0x0A00"
definition QC_SETGRACE :: u32 where "QC_SETGRACE = 0x0B00"
definition QC_SETFLAGS :: u32 where "QC_SETFLAGS = 0x0C00"
definition QC_GETQUOTA :: u32 where "QC_GETQUOTA = 0x0D00"
definition QC_SETQUOTA :: u32 where "QC_SETQUOTA = 0x0E00"
definition QC_SETUSE :: u32 where "QC_SETUSE = 0x0F00"
definition QC_GETSTATS :: u32 where "QC_GETSTATS = 0x1100"

text \<open>Validity bits of the basic record (\<^verbatim>\<open>if_dqblk.dqb_valid\<close>).\<close>

definition QIF_BLIMITS :: u32 where "QIF_BLIMITS = 1"
definition QIF_SPACE :: u32 where "QIF_SPACE = 2"
definition QIF_ILIMITS :: u32 where "QIF_ILIMITS = 4"
definition QIF_INODES :: u32 where "QIF_INODES = 8"
definition QIF_BTIME :: u32 where "QIF_BTIME = 16"
definition QIF_ITIME :: u32 where "QIF_ITIME = 32"
definition QIF_LIMITS :: u32 where "QIF_LIMITS = QIF_BLIMITS OR QIF_ILIMITS"
definition QIF_USAGE :: u32 where "QIF_USAGE = QIF_SPACE OR QIF_INODES"
definition QIF_TIMES :: u32 where "QIF_TIMES = QIF_BTIME OR QIF_ITIME"
definition QIF_ALL :: u32 where "QIF_ALL = QIF_LIMITS OR QIF_USAGE OR QIF_TIMES"

text \<open>Field-mask bits of the extended record (\<^verbatim>\<open>fs_disk_quota.d_fieldmask\<close>).\<close>

definition FS_DQ_ISOFT :: u16 where "FS_DQ_ISOFT = push_bit 0 1"
definition FS_DQ_IHARD :: u16 where "FS_DQ_IHARD = push_bit 1 1"
definition FS_DQ_BSOFT :: u16 where "FS_DQ_BSOFT = push_bit 2 1"
definition FS_DQ_BHARD :: u16 where "FS_DQ_BHARD = push_bit 3 1"
definition FS_DQ_BTIMER :: u16 where "FS_DQ_BTIMER = push_bit 6 1"
definition FS_DQ_ITIMER :: u16 where "FS_DQ_ITIMER = push_bit 7 1"
definition FS_DQ_BCOUNT :: u16 where "FS_DQ_BCOUNT = push_bit 12 1"
definition FS_DQ_ICOUNT :: u16 where "FS_DQ_ICOUNT = push_bit 13 1"

definition IIF_BGRACE :: u32 where "IIF_BGRACE = 1"
definition IIF_IGRACE :: u32 where "IIF_IGRACE = 2"
definition IIF_FLAGS :: u32 where "IIF_FLAGS = 4"
definition DQF_INFO_DIRTY :: u32 where "DQF_INFO_DIRTY = push_bit 31 1"

definition FS_QSTATV_VERSION1 :: u8 where "FS_QSTATV_VERSION1 = 1"
definition MS_RDONLY :: u64 where "MS_RDONLY = 1"

subsection \<open>Structures\<close>

text \<open>
  Modelled from the spec: the structure declarations are in the missing headers. The
  basic record \<^verbatim>\<open>struct if_dqblk\<close> has eight \<^verbatim>\<open>__u64\<close> fields and a \<^verbatim>\<open>__u32\<close> validity
  mask. The extended record \<^verbatim>\<open>struct fs_disk_quota\<close> has \<^verbatim>\<open>__u64\<close> limits and counts,
  \<^verbatim>\<open>__s32\<close> timers and a \<^verbatim>\<open>__u16\<close> field mask; its fields that \<^verbatim>\<open>quota.c\<close> never
  names (version, flags, id, warning counts, realtime limits) travel in \<open>d_rest\<close>.
\<close>

record if_dqblk =
  dqb_bhardlimit :: u64
  dqb_bsoftlimit :: u64
  dqb_curspace :: u64
  dqb_ihardlimit :: u64
  dqb_isoftlimit :: u64
  dqb_curinodes :: u64
  dqb_btime :: u64
  dqb_itime :: u64
  dqb_valid :: u32

record fs_disk_quota =
  d_fieldmask :: u16
  d_blk_hardlimit :: u64
  d_blk_softlimit :: u64
  d_ino_hardlimit :: u64
  d_ino_softlimit :: u64
  d_bcount :: u64
  d_icount :: u64
  d_itimer :: s32
  d_btimer :: s32
  d_rest :: "u8 list"

record if_dqinfo =
  dqi_bgrace :: u64
  dqi_igrace :: u64
  dqi_flags :: u32
  dqi_valid :: u32

text \<open>
  The legacy structures; their field names repeat those of the current ones in C, so
  they carry a prefix here.
\<close>

record compat_dqblk =
  c_dqb_ihardlimit :: u32
  c_dqb_isoftlimit :: u32
  c_dqb_curinodes :: u32
  c_dqb_bhardlimit :: u32
  c_dqb_bsoftlimit :: u32
  c_dqb_curspace :: s64
  c_dqb_btime :: s64
  c_dqb_itime :: s64

record compat_dqinfo =
  c_dqi_bgrace :: u32
  c_dqi_igrace :: u32
  c_dqi_flags :: u32
  c_dqi_blocks :: u32
  c_dqi_free_blk :: u32
  c_dqi_free_entry :: u32

record compat_dqstats =
  lookups :: u32
  drops :: u32
  reads :: u32
  writes :: u32
  cache_hits :: u32
  allocated_dquots :: u32
  free_dquots :: u32
  syncs :: u32
  version :: u32

record kqid =
  kq_type :: int
  kq_id :: u32

text \<open>
  A \<^verbatim>\<open>struct path *\<close> as the system call hands it on: NULL, an \<^verbatim>\<open>ERR_PTR\<close> carrying an
  error number, or a resolved path.
\<close>

datatype path_ptr = PathNull | PathErr int | PathOk string

subsection \<open>The structure translator\<close>

text \<open>
  Both functions write through \<^verbatim>\<open>dst\<close>; the model takes the old contents of \<^verbatim>\<open>*dst\<close> and
  returns the new ones. Assigning a \<^verbatim>\<open>__s32\<close> to a \<^verbatim>\<open>__u64\<close> sign-extends (\<open>scast\<close>);
  assigning a \<^verbatim>\<open>__u64\<close> to a \<^verbatim>\<open>__s32\<close> keeps the low 32 bits (\<open>ucast\<close>).
\<close>

definition copy_to_if_dqblk :: "if_dqblk \<Rightarrow> fs_disk_quota \<Rightarrow> if_dqblk" where
  "copy_to_if_dqblk dst src = dst
     \<lparr> dqb_bhardlimit := d_blk_hardlimit src,
       dqb_bsoftlimit := d_blk_softlimit src,
       dqb_curspace := d_bcount src,
       dqb_ihardlimit := d_ino_hardlimit src,
       dqb_isoftlimit := d_ino_softlimit src,
       dqb_curinodes := d_icount src,
       dqb_btime := scast (d_btimer src),
       dqb_itime := scast (d_itimer src),
       dqb_valid := QIF_ALL \<rparr>"

definition or_if :: "bool \<Rightarrow> u16 \<Rightarrow> u16 \<Rightarrow> u16" where
  "or_if c bits m = (if c then m OR bits else m)"

definition copy_from_if_dqblk :: "fs_disk_quota \<Rightarrow> if_dqblk \<Rightarrow> fs_disk_quota" where
  "copy_from_if_dqblk dst src =
     (let m0 = 0;
          m1 = or_if (dqb_valid src AND QIF_BLIMITS \<noteq> 0) (FS_DQ_BSOFT OR FS_DQ_BHARD) m0;
          m2 = or_if (dqb_valid src AND QIF_SPACE \<noteq> 0) FS_DQ_BCOUNT m1;
          m3 = or_if (dqb_valid src AND QIF_ILIMITS \<noteq> 0) (FS_DQ_ISOFT OR FS_DQ_IHARD) m2;
          m4 = or_if (dqb_valid src AND QIF_INODES \<noteq> 0) FS_DQ_ICOUNT m3;
          m5 = or_if (dqb_valid src AND QIF_BTIME \<noteq> 0) FS_DQ_BTIMER m4;
          m6 = or_if (dqb_valid src AND QIF_ITIME \<noteq> 0) FS_DQ_ITIMER m5
      in dst
       \<lparr> d_blk_hardlimit := dqb_bhardlimit src,
         d_blk_softlimit := dqb_bsoftlimit src,
         d_bcount := dqb_curspace src,
         d_ino_hardlimit := dqb_ihardlimit src,
         d_ino_softlimit := dqb_isoftlimit src,
         d_icount := dqb_curinodes src,
         d_btimer := ucast (dqb_btime src),
         d_itimer := ucast (dqb_itime src),
         d_fieldmask := m6 \<rparr>)"

subsection \<open>The filesystem's capability table and the superblock\<close>

text \<open>
  \<^verbatim>\<open>struct quotactl_ops\<close>: a NULL function pointer is \<open>None\<close>. The \<^verbatim>\<open>sb\<close> argument of every
  operation is the superblock that owns the table. An operation with an output parameter
  takes the old contents of the structure and returns the new ones with its result.
  \<^verbatim>\<open>struct fs_quota_stat\<close> is never looked into by \<^verbatim>\<open>quota.c\<close> and is kept as its bytes;
  of \<^verbatim>\<open>struct fs_quota_statv\<close> only the leading version byte is.
\<close>

record fs_quota_statv =
  qs_version :: u8
  qs_rest :: "u8 list"

record quotactl_ops =
  quota_on :: "(int \<Rightarrow> qid_t \<Rightarrow> path_ptr \<Rightarrow> int) option"
  quota_on_meta :: "(int \<Rightarrow> qid_t \<Rightarrow> int) option"
  quota_off :: "(int \<Rightarrow> int) option"
  quota_sync :: "(int \<Rightarrow> int) option"
  get_info :: "(int \<Rightarrow> if_dqinfo \<Rightarrow> int \<times> if_dqinfo) option"
  set_info :: "(int \<Rightarrow> if_dqinfo \<Rightarrow> int) option"
  get_dqblk :: "(kqid \<Rightarrow> fs_disk_quota \<Rightarrow> int \<times> fs_disk_quota) option"
  set_dqblk :: "(kqid \<Rightarrow> fs_disk_quota \<Rightarrow> int) option"
  get_xstate :: "(u8 list \<Rightarrow> int \<times> u8 list) option"
  set_xstate :: "(u32 \<Rightarrow> u32 \<Rightarrow> int) option"
  get_xstatev :: "(fs_quota_statv \<Rightarrow> int \<times> fs_quota_statv) option"
  rm_xquota :: "(u32 \<Rightarrow> int) option"

text \<open>
  The superblock: \<open>s_dev\<close> names it in the trace; \<open>quota_active\<close> is
  \<^verbatim>\<open>sb_has_quota_active(sb, type)\<close>, \<open>qf_fmt_id\<close> is
  \<^verbatim>\<open>sb_dqopt(sb)->info[type].dqi_format->qf_fmt_id\<close> and \<open>has_rm_xquota\<close> is
  \<^verbatim>\<open>sb_has_rm_xquota(sb)\<close>.
\<close>

record super_block =
  s_dev :: nat
  s_qcop :: "quotactl_ops option"
  s_flags :: u64
  quota_active :: "int \<Rightarrow> bool"
  qf_fmt_id :: "int \<Rightarrow> u32"
  has_rm_xquota :: bool

subsection \<open>Kernel state, trace and user memory\<close>

text \<open>
  What a call of a capability does inside the filesystem is out of this file's sight; the
  model records that the call was made, with its arguments, in a trace. The trace also
  records each question put to \<^verbatim>\<open>capable\<close>, each consultation of the security hook, each
  read of user memory and each release of a reference.
\<close>

datatype qcall =
    QuotaOn int qid_t path_ptr
  | QuotaOnMeta int qid_t
  | QuotaOff int
  | QuotaSync int
  | GetInfo int
  | SetInfo int if_dqinfo
  | GetDqblk kqid
  | SetDqblk kqid fs_disk_quota
  | GetXstate
  | SetXstate u32 u32
  | GetXstatev fs_quota_statv
  | RmXquota u32

datatype event =
    Capable nat
  | SecurityQuotactl u32 int qid_t "nat option"
  | Qcop nat qcall
  | CopyFromUser uaddr nat
  | DropSuper nat
  | PathPut string

record kstate =
  umem :: "uaddr \<Rightarrow> u8 option"
  trace :: "event list"

definition emit :: "event \<Rightarrow> kstate \<Rightarrow> kstate" where
  "emit e st = st \<lparr> trace := trace st @ [e] \<rparr>"

text \<open>A function of this file returns an \<^verbatim>\<open>int\<close>, or dereferences a NULL pointer.\<close>

datatype outcome = Ret int | Oops

text \<open>
  \<^verbatim>\<open>copy_from_user(dst, addr, n)\<close>: the \<open>n\<close> bytes at \<open>addr\<close>, or \<open>None\<close> when one of
  them is not mapped (the C function then returns a nonzero count).
\<close>

definition copy_from_user :: "kstate \<Rightarrow> uaddr \<Rightarrow> nat \<Rightarrow> u8 list option \<times> kstate" where
  "copy_from_user st addr n =
     (those (map (umem st) [addr ..< addr + n]), emit (CopyFromUser addr n) st)"

text \<open>
  \<^verbatim>\<open>copy_to_user(addr, src, n)\<close>: bytes are stored in order up to the first unmapped
  address; the result is the number of bytes not copied.
\<close>

fun store_bytes :: "(uaddr \<Rightarrow> u8 option) \<Rightarrow> uaddr \<Rightarrow> u8 list \<Rightarrow> nat \<times> (uaddr \<Rightarrow> u8 option)" where
  "store_bytes m a [] = (0, m)"
| "store_bytes m a (b # bs) =
     (if m a = None then (Suc (length bs), m) else store_bytes (m(a \<mapsto> b)) (Suc a) bs)"

definition copy_to_user :: "kstate \<Rightarrow> uaddr \<Rightarrow> u8 list \<Rightarrow> nat \<times> kstate" where
  "copy_to_user st addr bs =
     (let (n, m) = store_bytes (umem st) addr bs in (n, st \<lparr> umem := m \<rparr>))"

subsection \<open>The environment\<close>

text \<open>How a structure lies in user memory: its size, and the two directions.\<close>

record 'a codec =
  size_of :: nat
  decode :: "u8 list \<Rightarrow> 'a"
  encode :: "'a \<Rightarrow> u8 list"

text \<open>
  The kernel around \<^verbatim>\<open>quota.c\<close>. Credentials and the user namespace:
  \<open>current_euid\<close>, \<open>make_kuid\<close>, \<open>make_kgid\<close>, \<open>in_egroup_p\<close>, \<open>capable\<close>,
  \<open>make_kqid\<close>, \<open>qid_valid\<close>. The security hook \<open>security_quotactl\<close>, whose
  superblock argument is \<open>None\<close> for NULL. The mount table: \<open>supers\<close> is what
  \<^verbatim>\<open>iterate_supers\<close> walks; \<open>getname\<close>, \<open>lookup_bdev\<close>, \<open>get_super\<close>,
  \<open>get_super_thawed\<close> and \<open>user_path_at\<close> return \<open>Inl\<close> of a negative error number or
  \<open>None\<close> where the C functions return an error pointer or NULL. The \<open>stack_\<close> fields
  are the indeterminate contents of local variables that the code passes on without
  initialising every field.
\<close>

record env =
  current_euid :: u32
  make_kuid :: "qid_t \<Rightarrow> u32"
  make_kgid :: "qid_t \<Rightarrow> u32"
  in_egroup_p :: "u32 \<Rightarrow> bool"
  capable :: "nat \<Rightarrow> bool"
  make_kqid :: "int \<Rightarrow> qid_t \<Rightarrow> kqid"
  qid_valid :: "kqid \<Rightarrow> bool"
  security_quotactl :: "u32 \<Rightarrow> int \<Rightarrow> qid_t \<Rightarrow> nat option \<Rightarrow> int"
  supers :: "super_block list"
  getname :: "(uaddr \<Rightarrow> u8 option) \<Rightarrow> uaddr \<Rightarrow> int + string"
  lookup_bdev :: "string \<Rightarrow> int + nat"
  get_super :: "nat \<Rightarrow> super_block option"
  get_super_thawed :: "nat \<Rightarrow> super_block option"
  user_path_at :: "(uaddr \<Rightarrow> u8 option) \<Rightarrow> uaddr \<Rightarrow> int + string"
  abi_u32 :: "u32 codec"
  abi_if_dqinfo :: "if_dqinfo codec"
  abi_if_dqblk :: "if_dqblk codec"
  abi_fs_disk_quota :: "fs_disk_quota codec"
  abi_compat_dqblk :: "compat_dqblk codec"
  abi_compat_dqinfo :: "compat_dqinfo codec"
  abi_compat_dqstats :: "compat_dqstats codec"
  statv_rest_size :: nat
  stack_fdq :: fs_disk_quota
  stack_idq :: if_dqblk
  stack_info :: if_dqinfo
  stack_fqs :: "u8 list"

definition CAP_SYS_ADMIN :: nat where "CAP_SYS_ADMIN = 21"

text \<open>A call of the hook, recorded. The C parameter \<^verbatim>\<open>id\<close> is \<open>ident\<close> throughout.\<close>

definition call_security_quotactl ::
  "env \<Rightarrow> u32 \<Rightarrow> int \<Rightarrow> qid_t \<Rightarrow> nat option \<Rightarrow> kstate \<Rightarrow> int \<times> kstate" where
  "call_security_quotactl env cmd type ident sb st =
     (security_quotactl env cmd type ident sb, emit (SecurityQuotactl cmd type ident sb) st)"

subsection \<open>The permission check\<close>

definition check_quotactl_permission ::
  "env \<Rightarrow> super_block \<Rightarrow> int \<Rightarrow> u32 \<Rightarrow> qid_t \<Rightarrow> kstate \<Rightarrow> int \<times> kstate" where
  "check_quotactl_permission env sb type cmd ident st =
     (if cmd = Q_GETFMT \<or> cmd = Q_SYNC \<or> cmd = Q_GETINFO \<or> cmd = Q_XGETQSTAT
         \<or> cmd = Q_XGETQSTATV \<or> cmd = Q_XQUOTASYNC
      then call_security_quotactl env cmd type ident (Some (s_dev sb)) st
      else if (cmd = Q_GETQUOTA \<or> cmd = Q_XGETQUOTA)
           \<and> ((type = USRQUOTA \<and> current_euid env = make_kuid env ident)
              \<or> (type = GRPQUOTA \<and> in_egroup_p env (make_kgid env ident)))
      then call_security_quotactl env cmd type ident (Some (s_dev sb)) st
      else
        (let st1 = emit (Capable CAP_SYS_ADMIN) st
         in if \<not> capable env CAP_SYS_ADMIN then (- EPERM, st1)
            else call_security_quotactl env cmd type ident (Some (s_dev sb)) st1))"

subsection \<open>Broadcast sync\<close>

definition quota_sync_one :: "super_block \<Rightarrow> int \<Rightarrow> kstate \<Rightarrow> kstate" where
  "quota_sync_one sb arg st =
     (case s_qcop sb of
        None \<Rightarrow> st
      | Some ops \<Rightarrow>
          (case quota_sync ops of
             None \<Rightarrow> st
           | Some f \<Rightarrow> emit (Qcop (s_dev sb) (QuotaSync arg)) st))"

text \<open>\<^verbatim>\<open>iterate_supers(f, arg)\<close> calls \<open>f\<close> on every superblock of the mount table.\<close>

definition iterate_supers ::
  "env \<Rightarrow> (super_block \<Rightarrow> int \<Rightarrow> kstate \<Rightarrow> kstate) \<Rightarrow> int \<Rightarrow> kstate \<Rightarrow> kstate" where
  "iterate_supers env f arg st = fold (\<lambda>sb. f sb arg) (supers env) st"

definition quota_sync_all :: "env \<Rightarrow> int \<Rightarrow> kstate \<Rightarrow> int \<times> kstate" where
  "quota_sync_all env type st =
     (if type \<ge> MAXQUOTAS then (- EINVAL, st)
      else
        (let (ret, st1) = call_security_quotactl env Q_SYNC type 0 None st
         in if ret = 0 then (ret, iterate_supers env quota_sync_one type st1)
            else (ret, st1)))"

subsection \<open>The per-command helpers\<close>

text \<open>
  Each helper dereferences \<^verbatim>\<open>sb->s_qcop\<close> without a test of its own (the dispatcher
  has tested it); on a NULL table the model says \<open>Oops\<close>.
\<close>

definition quota_quotaon ::
  "super_block \<Rightarrow> int \<Rightarrow> u32 \<Rightarrow> qid_t \<Rightarrow> path_ptr \<Rightarrow> kstate \<Rightarrow> outcome \<times> kstate" where
  "quota_quotaon sb type cmd ident path st =
     (case s_qcop sb of
        None \<Rightarrow> (Oops, st)
      | Some ops \<Rightarrow>
          if quota_on ops = None \<and> quota_on_meta ops = None then (Ret (- ENOSYS), st)
          else
            (case quota_on_meta ops of
               Some f \<Rightarrow> (Ret (f type ident), emit (Qcop (s_dev sb) (QuotaOnMeta type ident)) st)
             | None \<Rightarrow>
                 (case path of
                    PathErr e \<Rightarrow> (Ret e, st)
                  | _ \<Rightarrow>
                      (case quota_on ops of
                         None \<Rightarrow> (Oops, st)
                       | Some g \<Rightarrow>
                           (Ret (g type ident path),
                            emit (Qcop (s_dev sb) (QuotaOn type ident path)) st)))))"

text \<open>The mutex around the lookup in \<^verbatim>\<open>quota_getfmt\<close> has no counterpart here.\<close>

definition quota_getfmt ::
  "env \<Rightarrow> super_block \<Rightarrow> int \<Rightarrow> uaddr \<Rightarrow> kstate \<Rightarrow> outcome \<times> kstate" where
  "quota_getfmt env sb type addr st =
     (if \<not> quota_active sb type then (Ret (- ESRCH), st)
      else
        (let fmt = qf_fmt_id sb type;
             (n, st1) = copy_to_user st addr (encode (abi_u32 env) fmt)
         in if n \<noteq> 0 then (Ret (- EFAULT), st1) else (Ret 0, st1)))"

definition quota_getinfo ::
  "env \<Rightarrow> super_block \<Rightarrow> int \<Rightarrow> uaddr \<Rightarrow> kstate \<Rightarrow> outcome \<times> kstate" where
  "quota_getinfo env sb type addr st =
     (case s_qcop sb of
        None \<Rightarrow> (Oops, st)
      | Some ops \<Rightarrow>
          (case get_info ops of
             None \<Rightarrow> (Ret (- ENOSYS), st)
           | Some f \<Rightarrow>
               (let (ret, info) = f type (stack_info env);
                    st1 = emit (Qcop (s_dev sb) (GetInfo type)) st
                in if ret = 0
                   then (let (n, st2) = copy_to_user st1 addr (encode (abi_if_dqinfo env) info)
                         in if n \<noteq> 0 then (Ret (- EFAULT), st2) else (Ret ret, st2))
                   else (Ret ret, st1))))"

definition quota_setinfo ::
  "env \<Rightarrow> super_block \<Rightarrow> int \<Rightarrow> uaddr \<Rightarrow> kstate \<Rightarrow> outcome \<times> kstate" where
  "quota_setinfo env sb type addr st =
     (case copy_from_user st addr (size_of (abi_if_dqinfo env)) of
        (None, st1) \<Rightarrow> (Ret (- EFAULT), st1)
      | (Some bs, st1) \<Rightarrow>
          (let info = decode (abi_if_dqinfo env) bs
           in case s_qcop sb of
                None \<Rightarrow> (Oops, st1)
              | Some ops \<Rightarrow>
                  (case set_info ops of
                     None \<Rightarrow> (Ret (- ENOSYS), st1)
                   | Some f \<Rightarrow>
                       (Ret (f type info), emit (Qcop (s_dev sb) (SetInfo type info)) st1))))"

definition quota_getquota ::
  "env \<Rightarrow> super_block \<Rightarrow> int \<Rightarrow> qid_t \<Rightarrow> uaddr \<Rightarrow> kstate \<Rightarrow> outcome \<times> kstate" where
  "quota_getquota env sb type ident addr st =
     (case s_qcop sb of
        None \<Rightarrow> (Oops, st)
      | Some ops \<Rightarrow>
          (case get_dqblk ops of
             None \<Rightarrow> (Ret (- ENOSYS), st)
           | Some f \<Rightarrow>
               (let qid = make_kqid env type ident
                in if \<not> qid_valid env qid then (Ret (- EINVAL), st)
                   else
                     (let (ret, fdq) = f qid (stack_fdq env);
                          st1 = emit (Qcop (s_dev sb) (GetDqblk qid)) st
                      in if ret \<noteq> 0 then (Ret ret, st1)
                         else
                           (let idq = copy_to_if_dqblk (stack_idq env) fdq;
                                (n, st2) = copy_to_user st1 addr (encode (abi_if_dqblk env) idq)
                            in if n \<noteq> 0 then (Ret (- EFAULT), st2) else (Ret 0, st2))))))"

definition quota_setquota ::
  "env \<Rightarrow> super_block \<Rightarrow> int \<Rightarrow> qid_t \<Rightarrow> uaddr \<Rightarrow> kstate \<Rightarrow> outcome \<times> kstate" where
  "quota_setquota env sb type ident addr st =
     (case copy_from_user st addr (size_of (abi_if_dqblk env)) of
        (None, st1) \<Rightarrow> (Ret (- EFAULT), st1)
      | (Some bs, st1) \<Rightarrow>
          (let idq = decode (abi_if_dqblk env) bs
           in case s_qcop sb of
                None \<Rightarrow> (Oops, st1)
              | Some ops \<Rightarrow>
                  (case set_dqblk ops of
                     None \<Rightarrow> (Ret (- ENOSYS), st1)
                   | Some f \<Rightarrow>
                       (let qid = make_kqid env type ident
                        in if \<not> qid_valid env qid then (Ret (- EINVAL), st1)
                           else
                             (let fdq = copy_from_if_dqblk (stack_fdq env) idq
                              in (Ret (f qid fdq),
                                  emit (Qcop (s_dev sb) (SetDqblk qid fdq)) st1))))))"

definition quota_setxstate ::
  "env \<Rightarrow> super_block \<Rightarrow> u32 \<Rightarrow> uaddr \<Rightarrow> kstate \<Rightarrow> outcome \<times> kstate" where
  "quota_setxstate env sb cmd addr st =
     (case copy_from_user st addr (size_of (abi_u32 env)) of
        (None, st1) \<Rightarrow> (Ret (- EFAULT), st1)
      | (Some bs, st1) \<Rightarrow>
          (let flags = decode (abi_u32 env) bs
           in case s_qcop sb of
                None \<Rightarrow> (Oops, st1)
              | Some ops \<Rightarrow>
                  (case set_xstate ops of
                     None \<Rightarrow> (Ret (- ENOSYS), st1)
                   | Some f \<Rightarrow>
                       (Ret (f flags cmd), emit (Qcop (s_dev sb) (SetXstate flags cmd)) st1))))"

definition quota_getxstate ::
  "env \<Rightarrow> super_block \<Rightarrow> uaddr \<Rightarrow> kstate \<Rightarrow> outcome \<times> kstate" where
  "quota_getxstate env sb addr st =
     (case s_qcop sb of
        None \<Rightarrow> (Oops, st)
      | Some ops \<Rightarrow>
          (case get_xstate ops of
             None \<Rightarrow> (Ret (- ENOSYS), st)
           | Some f \<Rightarrow>
               (let (ret, fqs) = f (stack_fqs env);
                    st1 = emit (Qcop (s_dev sb) GetXstate) st
                in if ret = 0
                   then (let (n, st2) = copy_to_user st1 addr fqs
                         in if n \<noteq> 0 then (Ret (- EFAULT), st2) else (Ret ret, st2))
                   else (Ret ret, st1))))"

text \<open>
  \<^verbatim>\<open>quota_getxstatev\<close>: the structure is zeroed, one byte is read from the caller into
  its first byte (\<^verbatim>\<open>/* Just read qs_version */\<close>), and the version is checked before
  the capability is called.
\<close>

definition quota_getxstatev ::
  "env \<Rightarrow> super_block \<Rightarrow> uaddr \<Rightarrow> kstate \<Rightarrow> outcome \<times> kstate" where
  "quota_getxstatev env sb addr st =
     (case s_qcop sb of
        None \<Rightarrow> (Oops, st)
      | Some ops \<Rightarrow>
          (case get_xstatev ops of
             None \<Rightarrow> (Ret (- ENOSYS), st)
           | Some f \<Rightarrow>
               (let fqs0 = \<lparr> qs_version = 0, qs_rest = replicate (statv_rest_size env) 0 \<rparr>
                in case copy_from_user st addr 1 of
                     (None, st1) \<Rightarrow> (Ret (- EFAULT), st1)
                   | (Some bs, st1) \<Rightarrow>
                       (let fqs = fqs0 \<lparr> qs_version := (case bs of [] \<Rightarrow> 0 | b # _ \<Rightarrow> b) \<rparr>
                        in if qs_version fqs = FS_QSTATV_VERSION1
                           then
                             (let (ret, fqs') = f fqs;
                                  st2 = emit (Qcop (s_dev sb) (GetXstatev fqs)) st1
                              in if ret = 0
                                 then (let (n, st3) =
                                             copy_to_user st2 addr (qs_version fqs' # qs_rest fqs')
                                       in if n \<noteq> 0 then (Ret (- EFAULT), st3)
                                          else (Ret ret, st3))
                                 else (Ret ret, st2))
                           else (Ret (- EINVAL), st1)))))"

definition quota_setxquota ::
  "env \<Rightarrow> super_block \<Rightarrow> int \<Rightarrow> qid_t \<Rightarrow> uaddr \<Rightarrow> kstate \<Rightarrow> outcome \<times> kstate" where
  "quota_setxquota env sb type ident addr st =
     (case copy_from_user st addr (size_of (abi_fs_disk_quota env)) of
        (None, st1) \<Rightarrow> (Ret (- EFAULT), st1)
      | (Some bs, st1) \<Rightarrow>
          (let fdq = decode (abi_fs_disk_quota env) bs
           in case s_qcop sb of
                None \<Rightarrow> (Oops, st1)
              | Some ops \<Rightarrow>
                  (case set_dqblk ops of
                     None \<Rightarrow> (Ret (- ENOSYS), st1)
                   | Some f \<Rightarrow>
                       (let qid = make_kqid env type ident
                        in if \<not> qid_valid env qid then (Ret (- EINVAL), st1)
                           else (Ret (f qid fdq),
                                 emit (Qcop (s_dev sb) (SetDqblk qid fdq)) st1)))))"

definition quota_getxquota ::
  "env \<Rightarrow> super_block \<Rightarrow> int \<Rightarrow> qid_t \<Rightarrow> uaddr \<Rightarrow> kstate \<Rightarrow> outcome \<times> kstate" where
  "quota_getxquota env sb type ident addr st =
     (case s_qcop sb of
        None \<Rightarrow> (Oops, st)
      | Some ops \<Rightarrow>
          (case get_dqblk ops of
             None \<Rightarrow> (Ret (- ENOSYS), st)
           | Some f \<Rightarrow>
               (let qid = make_kqid env type ident
                in if \<not> qid_valid env qid then (Ret (- EINVAL), st)
                   else
                     (let (ret, fdq) = f qid (stack_fdq env);
                          st1 = emit (Qcop (s_dev sb) (GetDqblk qid)) st
                      in if ret = 0
                         then (let (n, st2) =
                                     copy_to_user st1 addr (encode (abi_fs_disk_quota env) fdq)
                               in if n \<noteq> 0 then (Ret (- EFAULT), st2) else (Ret ret, st2))
                         else (Ret ret, st1)))))"

definition quota_rmxquota ::
  "env \<Rightarrow> super_block \<Rightarrow> uaddr \<Rightarrow> kstate \<Rightarrow> outcome \<times> kstate" where
  "quota_rmxquota env sb addr st =
     (case copy_from_user st addr (size_of (abi_u32 env)) of
        (None, st1) \<Rightarrow> (Ret (- EFAULT), st1)
      | (Some bs, st1) \<Rightarrow>
          (let flags = decode (abi_u32 env) bs
           in if \<not> has_rm_xquota sb then (Ret (- ENOSYS), st1)
              else
                (case s_qcop sb of
                   None \<Rightarrow> (Oops, st1)
                 | Some ops \<Rightarrow>
                     (case rm_xquota ops of
                        None \<Rightarrow> (Ret (- ENOSYS), st1)
                      | Some f \<Rightarrow>
                          (Ret (f flags), emit (Qcop (s_dev sb) (RmXquota flags)) st1)))))"

subsection \<open>The dispatcher\<close>

definition do_quotactl ::
  "env \<Rightarrow> super_block \<Rightarrow> int \<Rightarrow> u32 \<Rightarrow> qid_t \<Rightarrow> uaddr \<Rightarrow> path_ptr \<Rightarrow> kstate
     \<Rightarrow> outcome \<times> kstate" where
  "do_quotactl env sb type cmd ident addr path st =
     (if type \<ge> (if XQM_COMMAND cmd then XQM_MAXQUOTAS else MAXQUOTAS)
      then (Ret (- EINVAL), st)
      else
       (case s_qcop sb of
          None \<Rightarrow> (Ret (- ENOSYS), st)
        | Some ops \<Rightarrow>
           (let (ret, st1) = check_quotactl_permission env sb type cmd ident st
            in if ret < 0 then (Ret ret, st1)
               else if cmd = Q_QUOTAON then quota_quotaon sb type cmd ident path st1
               else if cmd = Q_QUOTAOFF then
                 (case quota_off ops of
                    None \<Rightarrow> (Ret (- ENOSYS), st1)
                  | Some f \<Rightarrow> (Ret (f type), emit (Qcop (s_dev sb) (QuotaOff type)) st1))
               else if cmd = Q_GETFMT then quota_getfmt env sb type addr st1
               else if cmd = Q_GETINFO then quota_getinfo env sb type addr st1
               else if cmd = Q_SETINFO then quota_setinfo env sb type addr st1
               else if cmd = Q_GETQUOTA then quota_getquota env sb type ident addr st1
               else if cmd = Q_SETQUOTA then quota_setquota env sb type ident addr st1
               else if cmd = Q_SYNC then
                 (case quota_sync ops of
                    None \<Rightarrow> (Ret (- ENOSYS), st1)
                  | Some f \<Rightarrow> (Ret (f type), emit (Qcop (s_dev sb) (QuotaSync type)) st1))
               else if cmd = Q_XQUOTAON \<or> cmd = Q_XQUOTAOFF then
                 quota_setxstate env sb cmd addr st1
               else if cmd = Q_XQUOTARM then quota_rmxquota env sb addr st1
               else if cmd = Q_XGETQSTAT then quota_getxstate env sb addr st1
               else if cmd = Q_XGETQSTATV then quota_getxstatev env sb addr st1
               else if cmd = Q_XSETQLIM then quota_setxquota env sb type ident addr st1
               else if cmd = Q_XGETQUOTA then quota_getxquota env sb type ident addr st1
               else if cmd = Q_XQUOTASYNC then
                 (if s_flags sb AND MS_RDONLY \<noteq> 0 then (Ret (- EROFS), st1)
                  else (Ret 0, st1))
               else (Ret (- EINVAL), st1))))"

subsection \<open>The target resolver\<close>

definition quotactl_cmd_write :: "u32 \<Rightarrow> bool" where
  "quotactl_cmd_write cmd \<longleftrightarrow>
     \<not> (cmd = Q_GETFMT \<or> cmd = Q_GETINFO \<or> cmd = Q_SYNC \<or> cmd = Q_XGETQSTAT
        \<or> cmd = Q_XGETQSTATV \<or> cmd = Q_XGETQUOTA \<or> cmd = Q_XQUOTASYNC)"

text \<open>
  \<^verbatim>\<open>quotactl_block\<close> with \<^verbatim>\<open>CONFIG_BLOCK\<close>: \<open>Inl\<close> is an \<^verbatim>\<open>ERR_PTR\<close>. Waiting for a thaw
  inside \<^verbatim>\<open>get_super_thawed\<close>, and the references on the name and the block device,
  have no counterpart here.
\<close>

definition quotactl_block :: "env \<Rightarrow> kstate \<Rightarrow> uaddr \<Rightarrow> u32 \<Rightarrow> int + super_block" where
  "quotactl_block env st special cmd =
     (case getname env (umem st) special of
        Inl e \<Rightarrow> Inl e
      | Inr name \<Rightarrow>
          (case lookup_bdev env name of
             Inl e \<Rightarrow> Inl e
           | Inr bdev \<Rightarrow>
               (case (if quotactl_cmd_write cmd then get_super_thawed env bdev
                      else get_super env bdev) of
                  None \<Rightarrow> Inl (- ENODEV)
                | Some sb \<Rightarrow> Inr sb)))"

subsection \<open>The legacy entry\<close>

text \<open>
  The tail of \<^verbatim>\<open>compat_quotactl\<close> after a \<^verbatim>\<open>break\<close> with a superblock held:
  \<^verbatim>\<open>drop_super(sb); return ret;\<close>.
\<close>

definition compat_out :: "super_block \<Rightarrow> int \<Rightarrow> kstate \<Rightarrow> outcome \<times> kstate" where
  "compat_out sb ret st = (Ret ret, emit (DropSuper (s_dev sb)) st)"

text \<open>
  The blocks of the \<^verbatim>\<open>switch\<close> of \<^verbatim>\<open>compat_quotactl\<close>, one definition each. The
  \<^verbatim>\<open>unsigned int type\<close> becomes the \<^verbatim>\<open>int\<close> parameter of the callees (\<open>sint\<close>). None of
  the blocks tests \<^verbatim>\<open>sb->s_qcop\<close> or the function pointer it calls.
\<close>

definition compat_getquota ::
  "env \<Rightarrow> u32 \<Rightarrow> u32 \<Rightarrow> uaddr \<Rightarrow> qid_t \<Rightarrow> uaddr \<Rightarrow> kstate \<Rightarrow> outcome \<times> kstate" where
  "compat_getquota env cmds type special ident addr st =
     (case quotactl_block env st special cmds of
        Inl e \<Rightarrow> (Ret e, st)
      | Inr sb \<Rightarrow>
         (let (ret, st1) = check_quotactl_permission env sb (sint type) Q_GETQUOTA ident st
          in if ret \<noteq> 0 then compat_out sb ret st1
             else
              (let qid = make_kqid env (sint type) ident
               in if \<not> qid_valid env qid then compat_out sb (- EINVAL) st1
                  else
                   (case s_qcop sb of
                      None \<Rightarrow> (Oops, st1)
                    | Some ops \<Rightarrow>
                       (case get_dqblk ops of
                          None \<Rightarrow> (Oops, st1)
                        | Some f \<Rightarrow>
                           (let (ret, fdq) = f qid (stack_fdq env);
                                st2 = emit (Qcop (s_dev sb) (GetDqblk qid)) st1;
                                idq = copy_to_if_dqblk (stack_idq env) fdq
                            in if ret \<noteq> 0 then compat_out sb ret st2
                               else
                                (let cdq =
                                       \<lparr> c_dqb_ihardlimit = ucast (d_ino_hardlimit fdq),
                                         c_dqb_isoftlimit = ucast (d_ino_softlimit fdq),
                                         c_dqb_curinodes = ucast (d_icount fdq),
                                         c_dqb_bhardlimit = ucast (d_blk_hardlimit fdq),
                                         c_dqb_bsoftlimit = ucast (d_blk_softlimit fdq),
                                         c_dqb_curspace = d_bcount fdq,
                                         c_dqb_btime = scast (d_btimer fdq),
                                         c_dqb_itime = scast (d_itimer fdq) \<rparr>;
                                     (n, st3) =
                                       copy_to_user st2 addr (encode (abi_compat_dqblk env) cdq)
                                 in compat_out sb (if n \<noteq> 0 then - EFAULT else 0) st3)))))))"

definition compat_setquota ::
  "env \<Rightarrow> u32 \<Rightarrow> u32 \<Rightarrow> uaddr \<Rightarrow> qid_t \<Rightarrow> uaddr \<Rightarrow> kstate \<Rightarrow> outcome \<times> kstate" where
  "compat_setquota env cmds type special ident addr st =
     (case quotactl_block env st special cmds of
        Inl e \<Rightarrow> (Ret e, st)
      | Inr sb \<Rightarrow>
         (let (ret, st1) = check_quotactl_permission env sb (sint type) Q_GETQUOTA ident st
          in if ret \<noteq> 0 then compat_out sb ret st1
             else
              (case copy_from_user st1 addr (size_of (abi_compat_dqblk env)) of
                 (None, st2) \<Rightarrow> compat_out sb (- EFAULT) st2
               | (Some bs, st2) \<Rightarrow>
                  (let cdq = decode (abi_compat_dqblk env) bs;
                       qid = make_kqid env (sint type) ident
                   in if \<not> qid_valid env qid then compat_out sb (- EINVAL) st2
                      else
                       (let v0 = 0;
                            v1 = (if cmds = QC_SETQUOTA \<or> cmds = QC_SETQLIM
                                  then v0 OR QIF_LIMITS else v0);
                            v2 = (if cmds = QC_SETQUOTA \<or> cmds = QC_SETUSE
                                  then v1 OR QIF_USAGE else v1);
                            idq = (stack_idq env)
                                    \<lparr> dqb_ihardlimit := ucast (c_dqb_ihardlimit cdq),
                                      dqb_isoftlimit := ucast (c_dqb_isoftlimit cdq),
                                      dqb_curinodes := ucast (c_dqb_curinodes cdq),
                                      dqb_bhardlimit := ucast (c_dqb_bhardlimit cdq),
                                      dqb_bsoftlimit := ucast (c_dqb_bsoftlimit cdq),
                                      dqb_curspace := c_dqb_curspace cdq,
                                      dqb_valid := v2 \<rparr>;
                            fdq = copy_from_if_dqblk (stack_fdq env) idq
                        in case s_qcop sb of
                             None \<Rightarrow> (Oops, st2)
                           | Some ops \<Rightarrow>
                              (case set_dqblk ops of
                                 None \<Rightarrow> (Oops, st2)
                               | Some f \<Rightarrow>
                                  compat_out sb (f qid fdq)
                                    (emit (Qcop (s_dev sb) (SetDqblk qid fdq)) st2)))))))"

definition compat_getinfo ::
  "env \<Rightarrow> u32 \<Rightarrow> u32 \<Rightarrow> uaddr \<Rightarrow> qid_t \<Rightarrow> uaddr \<Rightarrow> kstate \<Rightarrow> outcome \<times> kstate" where
  "compat_getinfo env cmds type special ident addr st =
     (case quotactl_block env st special cmds of
        Inl e \<Rightarrow> (Ret e, st)
      | Inr sb \<Rightarrow>
         (let (ret, st1) = check_quotactl_permission env sb (sint type) Q_GETQUOTA ident st
          in if ret \<noteq> 0 then compat_out sb ret st1
             else
              (case s_qcop sb of
                 None \<Rightarrow> (Oops, st1)
               | Some ops \<Rightarrow>
                  (case get_info ops of
                     None \<Rightarrow> (Oops, st1)
                   | Some f \<Rightarrow>
                      (let (ret, iinf) = f (sint type) (stack_info env);
                           st2 = emit (Qcop (s_dev sb) (GetInfo (sint type))) st1
                       in if ret \<noteq> 0 then compat_out sb ret st2
                          else
                           (let cinf =
                                  \<lparr> c_dqi_bgrace = ucast (dqi_bgrace iinf),
                                    c_dqi_igrace = ucast (dqi_igrace iinf),
                                    c_dqi_flags =
                                      (if dqi_flags iinf AND DQF_INFO_DIRTY \<noteq> 0
                                       then 0 OR 0x0010 else 0),
                                    c_dqi_blocks = 0,
                                    c_dqi_free_blk = 0,
                                    c_dqi_free_entry = 0 \<rparr>;
                                (n, st3) =
                                  copy_to_user st2 addr (encode (abi_compat_dqinfo env) cinf)
                            in compat_out sb (if n \<noteq> 0 then - EFAULT else 0) st3))))))"

definition compat_setinfo ::
  "env \<Rightarrow> u32 \<Rightarrow> u32 \<Rightarrow> uaddr \<Rightarrow> qid_t \<Rightarrow> uaddr \<Rightarrow> kstate \<Rightarrow> outcome \<times> kstate" where
  "compat_setinfo env cmds type special ident addr st =
     (case quotactl_block env st special cmds of
        Inl e \<Rightarrow> (Ret e, st)
      | Inr sb \<Rightarrow>
         (let (ret, st1) = check_quotactl_permission env sb (sint type) Q_GETQUOTA ident st
          in if ret \<noteq> 0 then compat_out sb ret st1
             else
              (case copy_from_user st1 addr (size_of (abi_compat_dqinfo env)) of
                 (None, st2) \<Rightarrow> compat_out sb (- EFAULT) st2
               | (Some bs, st2) \<Rightarrow>
                  (let cinf = decode (abi_compat_dqinfo env) bs;
                       v0 = 0;
                       v1 = (if cmds = QC_SETINFO \<or> cmds = QC_SETGRACE
                             then v0 OR (IIF_BGRACE OR IIF_IGRACE) else v0);
                       v2 = (if cmds = QC_SETINFO \<or> cmds = QC_SETFLAGS
                             then v1 OR IIF_FLAGS else v1);
                       iinf = (stack_info env)
                                \<lparr> dqi_bgrace := ucast (c_dqi_bgrace cinf),
                                  dqi_igrace := ucast (c_dqi_igrace cinf),
                                  dqi_flags := c_dqi_flags cinf,
                                  dqi_valid := v2 \<rparr>
                   in case s_qcop sb of
                        None \<Rightarrow> (Oops, st2)
                      | Some ops \<Rightarrow>
                         (case set_info ops of
                            None \<Rightarrow> (Oops, st2)
                          | Some f \<Rightarrow>
                             compat_out sb (f (sint type) iinf)
                               (emit (Qcop (s_dev sb) (SetInfo (sint type) iinf)) st2))))))"

definition compat_getstats :: "env \<Rightarrow> uaddr \<Rightarrow> kstate \<Rightarrow> outcome \<times> kstate" where
  "compat_getstats env addr st =
     (let stat = \<lparr> lookups = 0, drops = 0, reads = 0, writes = 0, cache_hits = 0,
                   allocated_dquots = 0, free_dquots = 0, syncs = 0,
                   version = 6 * 10000 + 5 * 100 + 0 \<rparr>;
          (n, st1) = copy_to_user st addr (encode (abi_compat_dqstats env) stat)
      in (Ret (if n \<noteq> 0 then - EFAULT else 0), st1))"

subsection \<open>The system call\<close>

text \<open>
  \<^verbatim>\<open>SYSCALL_DEFINE4(quotactl, ...)\<close> with \<^verbatim>\<open>CONFIG_QUOTA_COMPAT\<close>, and
  \<^verbatim>\<open>compat_quotactl\<close>, which calls back into the system call for three of its command
  words. The recursion ends because a command built by \<^verbatim>\<open>QCMD\<close> from a current opcode
  is outside the legacy range.
\<close>

function sys_quotactl ::
  "env \<Rightarrow> u32 \<Rightarrow> uaddr \<Rightarrow> qid_t \<Rightarrow> uaddr \<Rightarrow> kstate \<Rightarrow> outcome \<times> kstate"
and compat_quotactl ::
  "env \<Rightarrow> u32 \<Rightarrow> u32 \<Rightarrow> uaddr \<Rightarrow> qid_t \<Rightarrow> uaddr \<Rightarrow> kstate \<Rightarrow> outcome \<times> kstate"
where
  "sys_quotactl env cmd special ident addr st =
     (if 0x0100 \<le> drop_bit SUBCMDSHIFT cmd \<and> drop_bit SUBCMDSHIFT cmd < 0x3000
      then compat_quotactl env (drop_bit SUBCMDSHIFT cmd) (cmd AND SUBCMDMASK) special ident addr st
      else
       (let cmds = drop_bit SUBCMDSHIFT cmd;
            type = cmd AND SUBCMDMASK
        in if special = 0
           then (if cmds = Q_SYNC
                 then (let (ret, st1) = quota_sync_all env (sint type) st in (Ret ret, st1))
                 else (Ret (- ENODEV), st))
           else
            (let pathp = (if cmds = Q_QUOTAON
                          then (case user_path_at env (umem st) addr of
                                  Inl e \<Rightarrow> PathErr e
                                | Inr p \<Rightarrow> PathOk p)
                          else PathNull);
                 out = (\<lambda>s. case pathp of PathOk p \<Rightarrow> emit (PathPut p) s | _ \<Rightarrow> s)
             in case quotactl_block env st special cmds of
                  Inl e \<Rightarrow> (Ret e, out st)
                | Inr sb \<Rightarrow>
                   (case do_quotactl env sb (sint type) cmds ident addr pathp st of
                      (Oops, st1) \<Rightarrow> (Oops, st1)
                    | (Ret ret, st1) \<Rightarrow>
                        (Ret ret, out (emit (DropSuper (s_dev sb)) st1))))))"
| "compat_quotactl env cmds type special ident addr st =
     (if cmds = QC_QUOTAON then sys_quotactl env (QCMD Q_QUOTAON type) special ident addr st
      else if cmds = QC_QUOTAOFF then sys_quotactl env (QCMD Q_QUOTAOFF type) special ident addr st
      else if cmds = QC_SYNC then sys_quotactl env (QCMD Q_SYNC type) special ident addr st
      else if cmds = QC_GETQUOTA then compat_getquota env cmds type special ident addr st
      else if cmds = QC_SETQUOTA \<or> cmds = QC_SETUSE \<or> cmds = QC_SETQLIM
      then compat_setquota env cmds type special ident addr st
      else if cmds = QC_GETINFO then compat_getinfo env cmds type special ident addr st
      else if cmds = QC_SETINFO \<or> cmds = QC_SETGRACE \<or> cmds = QC_SETFLAGS
      then compat_setinfo env cmds type special ident addr st
      else if cmds = QC_GETSTATS then compat_getstats env addr st
      else (Ret (- ENOSYS), st))"
  by pat_completeness auto
termination
proof -
  have d: "drop_bit SUBCMDSHIFT (QCMD (take_bit 24 c) t) = take_bit 24 c" for c t :: u32
    unfolding QCMD_def SUBCMDMASK_def SUBCMDSHIFT_def
    by (rule bit_word_eqI) (auto simp add: bit_simps)
  have sync: "drop_bit SUBCMDSHIFT (QCMD 0x800001 t) = 0x800001" for t :: u32
    using d [of "0x800001" t] by simp
  have on: "drop_bit SUBCMDSHIFT (QCMD 0x800002 t) = 0x800002" for t :: u32
    using d [of "0x800002" t] by simp
  have off: "drop_bit SUBCMDSHIFT (QCMD 0x800003 t) = 0x800003" for t :: u32
    using d [of "0x800003" t] by simp
  show ?thesis
    by (relation "measure (\<lambda>x. case x of
            Inl (env, cmd, r) \<Rightarrow>
              (if 0x0100 \<le> drop_bit SUBCMDSHIFT cmd \<and> drop_bit SUBCMDSHIFT cmd < 0x3000
               then 2 else 0)
          | Inr r \<Rightarrow> 1)")
       (simp_all add: Q_SYNC_def Q_QUOTAON_def Q_QUOTAOFF_def sync on off)
qed

subsection \<open>A concrete system for evaluation\<close>

text \<open>
  One mounted filesystem implementing every capability except the metadata-based enable,
  one without a quota table, and an unprivileged caller with uid 1000 and group 100 in
  the initial namespace. The hook of \<open>ex_env\<close> permits everything.
\<close>

definition ex_codec :: "'a \<Rightarrow> 'a codec" where
  "ex_codec x = \<lparr> size_of = 2, decode = (\<lambda>bs. x), encode = (\<lambda>v. [0, 0]) \<rparr>"

definition ex_idq :: if_dqblk where
  "ex_idq = \<lparr> dqb_bhardlimit = 100, dqb_bsoftlimit = 90, dqb_curspace = 4096,
              dqb_ihardlimit = 20, dqb_isoftlimit = 10, dqb_curinodes = 3,
              dqb_btime = 0x80000000, dqb_itime = 7, dqb_valid = QIF_BLIMITS \<rparr>"

definition ex_fdq :: fs_disk_quota where
  "ex_fdq = \<lparr> d_fieldmask = 0, d_blk_hardlimit = 0, d_blk_softlimit = 0,
              d_ino_hardlimit = 0, d_ino_softlimit = 0, d_bcount = 0, d_icount = 0,
              d_itimer = 0, d_btimer = 0, d_rest = [] \<rparr>"

definition ex_info :: if_dqinfo where
  "ex_info = \<lparr> dqi_bgrace = 0, dqi_igrace = 0, dqi_flags = 0, dqi_valid = 0 \<rparr>"

definition ex_cdq :: compat_dqblk where
  "ex_cdq = \<lparr> c_dqb_ihardlimit = 20, c_dqb_isoftlimit = 10, c_dqb_curinodes = 3,
              c_dqb_bhardlimit = 100, c_dqb_bsoftlimit = 90, c_dqb_curspace = 4096,
              c_dqb_btime = 0, c_dqb_itime = 0 \<rparr>"

definition ex_cinf :: compat_dqinfo where
  "ex_cinf = \<lparr> c_dqi_bgrace = 0, c_dqi_igrace = 0, c_dqi_flags = 0, c_dqi_blocks = 0,
               c_dqi_free_blk = 0, c_dqi_free_entry = 0 \<rparr>"

definition ex_stats :: compat_dqstats where
  "ex_stats = \<lparr> lookups = 0, drops = 0, reads = 0, writes = 0, cache_hits = 0,
                allocated_dquots = 0, free_dquots = 0, syncs = 0, version = 0 \<rparr>"

definition ex_ops :: quotactl_ops where
  "ex_ops =
     \<lparr> quota_on = Some (\<lambda>t i p. 0),
       quota_on_meta = None,
       quota_off = Some (\<lambda>t. 0),
       quota_sync = Some (\<lambda>t. - 5),
       get_info = Some (\<lambda>t i. (0, i)),
       set_info = Some (\<lambda>t i. 0),
       get_dqblk = Some (\<lambda>q d. (0, d)),
       set_dqblk = Some (\<lambda>q d. 0),
       get_xstate = Some (\<lambda>s. (0, s)),
       set_xstate = Some (\<lambda>f c. 0),
       get_xstatev = Some (\<lambda>s. (0, s)),
       rm_xquota = Some (\<lambda>f. 0) \<rparr>"

definition ex_sb :: super_block where
  "ex_sb = \<lparr> s_dev = 1, s_qcop = Some ex_ops, s_flags = 0,
             quota_active = (\<lambda>t. True), qf_fmt_id = (\<lambda>t. 2), has_rm_xquota = False \<rparr>"

definition ex_sb_plain :: super_block where
  "ex_sb_plain = \<lparr> s_dev = 2, s_qcop = None, s_flags = 0,
                   quota_active = (\<lambda>t. False), qf_fmt_id = (\<lambda>t. 0), has_rm_xquota = False \<rparr>"

definition ex_env :: env where
  "ex_env =
     \<lparr> current_euid = 1000,
       make_kuid = (\<lambda>i. i),
       make_kgid = (\<lambda>i. i),
       in_egroup_p = (\<lambda>g. g = 100),
       capable = (\<lambda>c. False),
       make_kqid = (\<lambda>t i. \<lparr> kq_type = t, kq_id = i \<rparr>),
       qid_valid = (\<lambda>q. kq_id q \<noteq> 0xffffffff),
       security_quotactl = (\<lambda>c t i s. 0),
       supers = [ex_sb, ex_sb_plain],
       getname = (\<lambda>m a. Inr ''/dev/sda1''),
       lookup_bdev = (\<lambda>n. Inr 1),
       get_super = (\<lambda>b. Some ex_sb),
       get_super_thawed = (\<lambda>b. Some ex_sb),
       user_path_at = (\<lambda>m a. Inr ''/aquota.user''),
       abi_u32 = ex_codec 0,
       abi_if_dqinfo = ex_codec ex_info,
       abi_if_dqblk = ex_codec ex_idq,
       abi_fs_disk_quota = ex_codec ex_fdq,
       abi_compat_dqblk = ex_codec ex_cdq,
       abi_compat_dqinfo = ex_codec ex_cinf,
       abi_compat_dqstats = ex_codec ex_stats,
       statv_rest_size = 3,
       stack_fdq = ex_fdq,
       stack_idq = ex_idq,
       stack_info = ex_info,
       stack_fqs = [0, 0] \<rparr>"

text \<open>User memory mapped everywhere and holding the byte 2; nothing has happened yet.\<close>

definition ex_st :: kstate where
  "ex_st = \<lparr> umem = (\<lambda>a. Some 2), trace = [] \<rparr>"

text \<open>The same system with a hook that denies everything (\<^verbatim>\<open>-EACCES\<close>).\<close>

definition ex_env_deny :: env where
  "ex_env_deny = ex_env \<lparr> security_quotactl := (\<lambda>c t i s. - 13) \<rparr>"

text \<open>The first filesystem mounted read-only; and without the versioned-state capability.\<close>

definition ex_sb_ro :: super_block where
  "ex_sb_ro = ex_sb \<lparr> s_flags := MS_RDONLY \<rparr>"

definition ex_sb_nostatv :: super_block where
  "ex_sb_nostatv = ex_sb \<lparr> s_qcop := Some (ex_ops \<lparr> get_xstatev := None \<rparr>) \<rparr>"

text \<open>A filesystem that has the metadata-based enable, failing with \<^verbatim>\<open>-EBUSY\<close>.\<close>

definition ex_sb_meta :: super_block where
  "ex_sb_meta = ex_sb \<lparr> s_qcop := Some (ex_ops \<lparr> quota_on_meta := Some (\<lambda>t i. - 16) \<rparr>) \<rparr>"

text \<open>
  What \<^verbatim>\<open>QC_SETQUOTA\<close> hands to \<^verbatim>\<open>set_dqblk\<close> in the concrete system: limits and usage
  of \<open>ex_cdq\<close>, the mask of limits and usage, and timers left over from the stack.
\<close>

definition ex_set_fdq :: fs_disk_quota where
  "ex_set_fdq = \<lparr> d_fieldmask = 0x300f, d_blk_hardlimit = 100, d_blk_softlimit = 90,
                  d_ino_hardlimit = 20, d_ino_softlimit = 10, d_bcount = 4096, d_icount = 3,
                  d_itimer = 7, d_btimer = 0x80000000, d_rest = [] \<rparr>"

subsection \<open>Predicates used in the statements\<close>

text \<open>
  The self-service condition of the permission check: the queried identity is the
  caller's own effective uid (user class) or one of the caller's effective groups (group
  class), both read through the caller's user namespace.
\<close>

definition self_service :: "env \<Rightarrow> int \<Rightarrow> qid_t \<Rightarrow> bool" where
  "self_service env type ident \<longleftrightarrow>
     (type = USRQUOTA \<and> current_euid env = make_kuid env ident)
     \<or> (type = GRPQUOTA \<and> in_egroup_p env (make_kgid env ident))"

text \<open>
  The built-in privilege decision in the words of the spec (4.2), to be compared with the
  code: the six unprivileged opcodes are granted to everyone, get-record and
  get-extended-limits are granted under the self-service condition, everything is granted
  to a caller with the administration privilege, and nothing else is granted.
\<close>

definition privilege_decision :: "env \<Rightarrow> int \<Rightarrow> u32 \<Rightarrow> qid_t \<Rightarrow> bool" where
  "privilege_decision env type cmd ident \<longleftrightarrow>
     cmd \<in> {Q_GETFMT, Q_SYNC, Q_GETINFO, Q_XGETQSTAT, Q_XGETQSTATV, Q_XQUOTASYNC}
     \<or> (cmd \<in> {Q_GETQUOTA, Q_XGETQUOTA} \<and> self_service env type ident)
     \<or> capable env CAP_SYS_ADMIN"

text \<open>
  The state in which the privilege decision leaves the kernel: the administration
  privilege is asked for, and the question recorded, only for requests that neither the
  unprivileged set nor the self-service exception settles.
\<close>

definition after_privilege_decision :: "env \<Rightarrow> int \<Rightarrow> u32 \<Rightarrow> qid_t \<Rightarrow> kstate \<Rightarrow> kstate" where
  "after_privilege_decision env type cmd ident st =
     (if cmd \<in> {Q_GETFMT, Q_SYNC, Q_GETINFO, Q_XGETQSTAT, Q_XGETQSTATV, Q_XQUOTASYNC}
         \<or> (cmd \<in> {Q_GETQUOTA, Q_XGETQUOTA} \<and> self_service env type ident)
      then st else emit (Capable CAP_SYS_ADMIN) st)"

text \<open>A mounted filesystem exposes the sync capability.\<close>

definition exposes_sync :: "super_block \<Rightarrow> bool" where
  "exposes_sync sb =
     (case s_qcop sb of
        None \<Rightarrow> False
      | Some ops \<Rightarrow> (case quota_sync ops of None \<Rightarrow> False | Some f \<Rightarrow> True))"

section \<open>Properties\<close>

lemmas cmd_defs = Q_SYNC_def Q_QUOTAON_def Q_QUOTAOFF_def Q_GETFMT_def Q_GETINFO_def
  Q_SETINFO_def Q_GETQUOTA_def Q_SETQUOTA_def Q_XQUOTAON_def Q_XQUOTAOFF_def Q_XGETQUOTA_def
  Q_XSETQLIM_def Q_XGETQSTAT_def Q_XQUOTARM_def Q_XQUOTASYNC_def Q_XGETQSTATV_def XQM_CMD_def

lemmas qc_defs = QC_QUOTAON_def QC_QUOTAOFF_def QC_SYNC_def QC_SETQLIM_def QC_GETINFO_def
  QC_SETINFO_def QC_SETGRACE_def QC_SETFLAGS_def QC_GETQUOTA_def QC_SETQUOTA_def QC_SETUSE_def
  QC_GETSTATS_def

subsection \<open>The structure translator\<close>

lemma scast_ucast_take_bit_31:
  "(scast (ucast (take_bit 31 (y :: u64)) :: s32) :: u64) = take_bit 31 y"
  by (rule bit_word_eqI) (auto simp add: bit_simps)

lemma scast_ucast_below_2p31:
  assumes "x < 2 ^ 31"
  shows "(scast (ucast (x :: u64) :: s32) :: u64) = x"
proof -
  have "take_bit 31 x = x"
    using less_mask_eq [OF assms] by (simp add: take_bit_eq_mask)
  then show ?thesis
    using scast_ucast_take_bit_31 [of x] by simp
qed

text \<open>
  C4, as stated, fails: a block grace timer of \<open>2^31\<close> does not survive the passage
  through the 32-bit signed timer of the extended record; it comes back as
  \<open>0xffffffff80000000\<close>.
\<close>

theorem roundtrip_timer_counterexample:
  "dqb_btime (copy_to_if_dqblk ex_idq (copy_from_if_dqblk ex_fdq ex_idq)) \<noteq> dqb_btime ex_idq"
  by (simp add: copy_to_if_dqblk_def copy_from_if_dqblk_def ex_idq_def Let_def)

text \<open>
  C4, amended: translating a basic record to the extended form and back returns the six
  limit and usage fields unchanged and the all-fields-valid mask, whatever the original
  mask and whatever the destinations held before; each grace timer comes back as its low
  32 bits sign-extended, hence unchanged whenever it is below \<open>2^31\<close>.
\<close>

theorem roundtrip_basic_extended_basic:
  "(let r' = copy_to_if_dqblk d0 (copy_from_if_dqblk f0 r) in
      dqb_bhardlimit r' = dqb_bhardlimit r
    \<and> dqb_bsoftlimit r' = dqb_bsoftlimit r
    \<and> dqb_curspace r' = dqb_curspace r
    \<and> dqb_ihardlimit r' = dqb_ihardlimit r
    \<and> dqb_isoftlimit r' = dqb_isoftlimit r
    \<and> dqb_curinodes r' = dqb_curinodes r
    \<and> dqb_btime r' = scast (ucast (dqb_btime r) :: s32)
    \<and> dqb_itime r' = scast (ucast (dqb_itime r) :: s32)
    \<and> (dqb_btime r < 2 ^ 31 \<longrightarrow> dqb_btime r' = dqb_btime r)
    \<and> (dqb_itime r < 2 ^ 31 \<longrightarrow> dqb_itime r' = dqb_itime r)
    \<and> dqb_valid r' = QIF_ALL
    \<and> QIF_ALL = 0x3f)"
  by (simp add: copy_to_if_dqblk_def copy_from_if_dqblk_def Let_def scast_ucast_below_2p31
        QIF_ALL_def QIF_LIMITS_def QIF_USAGE_def QIF_TIMES_def QIF_BLIMITS_def QIF_SPACE_def
        QIF_ILIMITS_def QIF_INODES_def QIF_BTIME_def QIF_ITIME_def)

theorem roundtrip_basic_extended_basic_witness:
  "dqb_btime (ex_idq \<lparr> dqb_btime := 5 \<rparr>) < 2 ^ 31
   \<and> dqb_itime (ex_idq \<lparr> dqb_btime := 5 \<rparr>) < 2 ^ 31
   \<and> dqb_valid (ex_idq \<lparr> dqb_btime := 5 \<rparr>) = 1
   \<and> copy_to_if_dqblk ex_idq (copy_from_if_dqblk ex_fdq (ex_idq \<lparr> dqb_btime := 5 \<rparr>))
       = ex_idq \<lparr> dqb_btime := 5, dqb_valid := 0x3f \<rparr>"
  using roundtrip_basic_extended_basic [of ex_idq ex_fdq "ex_idq \<lparr> dqb_btime := 5 \<rparr>"]
  by (simp add: Let_def ex_idq_def QIF_BLIMITS_def copy_to_if_dqblk_def)

text \<open>
  C5: the field mask written by the basic-to-extended translation has the soft-block and
  the hard-block bit exactly when the block-limits bit is valid, the block-count bit
  exactly when the space bit is, the soft-inode and the hard-inode bit exactly when the
  inode-limits bit is, the inode-count bit exactly when the inode-usage bit is, each timer
  bit exactly when the corresponding grace-time bit is, and no other bit.
\<close>

theorem fieldmask_from_valid:
  "(let m = d_fieldmask (copy_from_if_dqblk dst src); v = dqb_valid src in
      (m AND FS_DQ_BSOFT \<noteq> 0) = (v AND QIF_BLIMITS \<noteq> 0)
    \<and> (m AND FS_DQ_BHARD \<noteq> 0) = (v AND QIF_BLIMITS \<noteq> 0)
    \<and> (m AND FS_DQ_BCOUNT \<noteq> 0) = (v AND QIF_SPACE \<noteq> 0)
    \<and> (m AND FS_DQ_ISOFT \<noteq> 0) = (v AND QIF_ILIMITS \<noteq> 0)
    \<and> (m AND FS_DQ_IHARD \<noteq> 0) = (v AND QIF_ILIMITS \<noteq> 0)
    \<and> (m AND FS_DQ_ICOUNT \<noteq> 0) = (v AND QIF_INODES \<noteq> 0)
    \<and> (m AND FS_DQ_BTIMER \<noteq> 0) = (v AND QIF_BTIME \<noteq> 0)
    \<and> (m AND FS_DQ_ITIMER \<noteq> 0) = (v AND QIF_ITIME \<noteq> 0)
    \<and> m AND NOT (FS_DQ_BSOFT OR FS_DQ_BHARD OR FS_DQ_BCOUNT OR FS_DQ_ISOFT OR FS_DQ_IHARD
                   OR FS_DQ_ICOUNT OR FS_DQ_BTIMER OR FS_DQ_ITIMER) = 0)"
  by (simp add: copy_from_if_dqblk_def or_if_def Let_def FS_DQ_BSOFT_def FS_DQ_BHARD_def
        FS_DQ_ISOFT_def FS_DQ_IHARD_def FS_DQ_BCOUNT_def FS_DQ_ICOUNT_def FS_DQ_BTIMER_def
        FS_DQ_ITIMER_def)

theorem fieldmask_from_valid_witness:
  "d_fieldmask (copy_from_if_dqblk ex_fdq ex_idq) = 0x000c
   \<and> d_fieldmask (copy_from_if_dqblk ex_fdq (ex_idq \<lparr> dqb_valid := 0x3f \<rparr>)) = 0x30cf
   \<and> d_fieldmask (copy_from_if_dqblk ex_fdq (ex_idq \<lparr> dqb_valid := 0xffffffc0 \<rparr>)) = 0"
  using fieldmask_from_valid [of ex_fdq ex_idq]
  by (simp add: copy_from_if_dqblk_def or_if_def Let_def ex_idq_def
        QIF_BLIMITS_def QIF_SPACE_def QIF_ILIMITS_def QIF_INODES_def QIF_BTIME_def QIF_ITIME_def
        FS_DQ_BSOFT_def FS_DQ_BHARD_def FS_DQ_ISOFT_def FS_DQ_IHARD_def FS_DQ_BCOUNT_def
        FS_DQ_ICOUNT_def FS_DQ_BTIMER_def FS_DQ_ITIMER_def)

subsection \<open>The permission check\<close>

text \<open>
  C2, as stated, fails: an unprivileged caller asking for the record of their own uid is
  still refused when the security hook denies, so owning the identity is not sufficient
  for the check to succeed.
\<close>

theorem own_record_hook_denies_counterexample:
  "\<not> capable ex_env_deny CAP_SYS_ADMIN
   \<and> current_euid ex_env_deny = make_kuid ex_env_deny 1000
   \<and> fst (check_quotactl_permission ex_env_deny ex_sb USRQUOTA Q_GETQUOTA 1000 ex_st) \<noteq> 0"
  by (simp add: check_quotactl_permission_def call_security_quotactl_def ex_env_deny_def
        ex_env_def cmd_defs USRQUOTA_def)

text \<open>
  C2, amended: for a caller without the administration privilege and the opcode get-record
  or get-extended-limits, the check returns the verdict of the security hook when the
  queried identity is the caller's own effective uid (user class) or one of the caller's
  effective groups (group class), and returns \<^verbatim>\<open>-EPERM\<close> without consulting the hook for
  every other class and identity (having asked for the privilege in vain). Hence it succeeds exactly when the identity is the
  caller's own and the hook permits.
\<close>

theorem get_record_without_privilege:
  assumes "\<not> capable env CAP_SYS_ADMIN" and "cmd = Q_GETQUOTA \<or> cmd = Q_XGETQUOTA"
  shows "(self_service env type ident \<longrightarrow>
            check_quotactl_permission env sb type cmd ident st
              = (security_quotactl env cmd type ident (Some (s_dev sb)),
                 emit (SecurityQuotactl cmd type ident (Some (s_dev sb))) st))
       \<and> (\<not> self_service env type ident \<longrightarrow>
            check_quotactl_permission env sb type cmd ident st
              = (- EPERM, emit (Capable CAP_SYS_ADMIN) st))
       \<and> (fst (check_quotactl_permission env sb type cmd ident st) = 0
            \<longleftrightarrow> self_service env type ident
                \<and> security_quotactl env cmd type ident (Some (s_dev sb)) = 0)"
  using assms
  by (auto simp add: check_quotactl_permission_def call_security_quotactl_def self_service_def
        EPERM_def cmd_defs Let_def)

theorem get_record_without_privilege_witness:
  "\<not> capable ex_env CAP_SYS_ADMIN
   \<and> self_service ex_env USRQUOTA 1000
   \<and> check_quotactl_permission ex_env ex_sb USRQUOTA Q_GETQUOTA 1000 ex_st
       = (0, emit (SecurityQuotactl Q_GETQUOTA USRQUOTA 1000 (Some 1)) ex_st)
   \<and> \<not> self_service ex_env USRQUOTA 1001
   \<and> check_quotactl_permission ex_env ex_sb USRQUOTA Q_GETQUOTA 1001 ex_st
       = (- EPERM, emit (Capable CAP_SYS_ADMIN) ex_st)
   \<and> self_service ex_env GRPQUOTA 100
   \<and> fst (check_quotactl_permission ex_env ex_sb GRPQUOTA Q_XGETQUOTA 100 ex_st) = 0"
  using get_record_without_privilege
          [where env = ex_env and cmd = Q_GETQUOTA and type = USRQUOTA and ident = 1000
             and sb = ex_sb and st = ex_st]
        get_record_without_privilege
          [where env = ex_env and cmd = Q_GETQUOTA and type = USRQUOTA and ident = 1001
             and sb = ex_sb and st = ex_st]
        get_record_without_privilege
          [where env = ex_env and cmd = Q_XGETQUOTA and type = GRPQUOTA and ident = 100
             and sb = ex_sb and st = ex_st]
  by (simp add: self_service_def ex_env_def ex_sb_def USRQUOTA_def GRPQUOTA_def)

text \<open>
  C3, as stated, fails: when the built-in decision denies (set-record by an unprivileged
  caller), the check returns \<^verbatim>\<open>-EPERM\<close> at once and the hook is not consulted; the trace
  holds the question put to \<^verbatim>\<open>capable\<close> and nothing else.
\<close>

theorem hook_not_consulted_counterexample:
  "fst (check_quotactl_permission ex_env ex_sb USRQUOTA Q_SETQUOTA 1000 ex_st) = - EPERM
   \<and> trace (snd (check_quotactl_permission ex_env ex_sb USRQUOTA Q_SETQUOTA 1000 ex_st))
       = [Capable CAP_SYS_ADMIN]"
  by (simp add: check_quotactl_permission_def ex_env_def ex_st_def cmd_defs emit_def)

text \<open>
  C3, amended: for every command, class, identity and caller, the check consults the
  security hook after the built-in privilege decision exactly when that decision grants,
  and then returns the hook's verdict, so a denial by the hook is terminal even though the
  privilege decision granted; when the privilege decision denies, the check returns
  \<^verbatim>\<open>-EPERM\<close> and the hook is not consulted.
\<close>

theorem hook_after_privilege_decision:
  "check_quotactl_permission env sb type cmd ident st =
     (if privilege_decision env type cmd ident
      then (security_quotactl env cmd type ident (Some (s_dev sb)),
            emit (SecurityQuotactl cmd type ident (Some (s_dev sb)))
              (after_privilege_decision env type cmd ident st))
      else (- EPERM, after_privilege_decision env type cmd ident st))"
  by (auto simp add: check_quotactl_permission_def call_security_quotactl_def self_service_def
        privilege_decision_def after_privilege_decision_def Let_def)

theorem hook_after_privilege_decision_witness:
  "privilege_decision ex_env_deny USRQUOTA Q_GETQUOTA 1000
   \<and> check_quotactl_permission ex_env_deny ex_sb USRQUOTA Q_GETQUOTA 1000 ex_st
       = (- 13, emit (SecurityQuotactl Q_GETQUOTA USRQUOTA 1000 (Some 1)) ex_st)
   \<and> \<not> privilege_decision ex_env_deny USRQUOTA Q_SETQUOTA 1000
   \<and> check_quotactl_permission ex_env_deny ex_sb USRQUOTA Q_SETQUOTA 1000 ex_st
       = (- EPERM, emit (Capable CAP_SYS_ADMIN) ex_st)"
  using hook_after_privilege_decision [of ex_env_deny ex_sb USRQUOTA Q_GETQUOTA 1000 ex_st]
        hook_after_privilege_decision [of ex_env_deny ex_sb USRQUOTA Q_SETQUOTA 1000 ex_st]
  by (simp add: privilege_decision_def after_privilege_decision_def self_service_def
        ex_env_deny_def ex_env_def ex_sb_def USRQUOTA_def cmd_defs)

subsection \<open>The dispatcher\<close>

lemma XQM_COMMAND_opcodes:
  "XQM_COMMAND Q_XQUOTAON \<and> XQM_COMMAND Q_XQUOTAOFF \<and> XQM_COMMAND Q_XGETQUOTA
   \<and> XQM_COMMAND Q_XSETQLIM \<and> XQM_COMMAND Q_XGETQSTAT \<and> XQM_COMMAND Q_XQUOTARM
   \<and> XQM_COMMAND Q_XQUOTASYNC \<and> XQM_COMMAND Q_XGETQSTATV
   \<and> \<not> XQM_COMMAND Q_SYNC \<and> \<not> XQM_COMMAND Q_QUOTAON \<and> \<not> XQM_COMMAND Q_QUOTAOFF
   \<and> \<not> XQM_COMMAND Q_GETFMT \<and> \<not> XQM_COMMAND Q_GETINFO \<and> \<not> XQM_COMMAND Q_SETINFO
   \<and> \<not> XQM_COMMAND Q_GETQUOTA \<and> \<not> XQM_COMMAND Q_SETQUOTA"
  by (simp add: XQM_COMMAND_def cmd_defs)

lemma do_quotactl_reject:
  "(if XQM_COMMAND cmd then XQM_MAXQUOTAS else MAXQUOTAS) \<le> type \<Longrightarrow>
     do_quotactl env sb type cmd ident addr path st = (Ret (- EINVAL), st)"
  by (simp add: do_quotactl_def)

lemma do_quotactl_no_qcop:
  "type < (if XQM_COMMAND cmd then XQM_MAXQUOTAS else MAXQUOTAS) \<Longrightarrow> s_qcop sb = None \<Longrightarrow>
     do_quotactl env sb type cmd ident addr path st = (Ret (- ENOSYS), st)"
  by (simp add: do_quotactl_def)

lemma do_quotactl_denied:
  "type < (if XQM_COMMAND cmd then XQM_MAXQUOTAS else MAXQUOTAS) \<Longrightarrow> s_qcop sb = Some ops \<Longrightarrow>
   check_quotactl_permission env sb type cmd ident st = (r, st1) \<Longrightarrow> r < 0 \<Longrightarrow>
     do_quotactl env sb type cmd ident addr path st = (Ret r, st1)"
  by (simp add: do_quotactl_def)

lemma do_quotactl_xquotasync:
  "type < XQM_MAXQUOTAS \<Longrightarrow> s_qcop sb = Some ops \<Longrightarrow>
   check_quotactl_permission env sb type Q_XQUOTASYNC ident st = (r, st1) \<Longrightarrow> 0 \<le> r \<Longrightarrow>
     do_quotactl env sb type Q_XQUOTASYNC ident addr path st
       = (Ret (if s_flags sb AND MS_RDONLY \<noteq> 0 then - EROFS else 0), st1)"
  by (simp add: do_quotactl_def XQM_COMMAND_def cmd_defs)

lemma check_xquotasync:
  "check_quotactl_permission env sb type Q_XQUOTASYNC ident st
     = (security_quotactl env Q_XQUOTASYNC type ident (Some (s_dev sb)),
        emit (SecurityQuotactl Q_XQUOTASYNC type ident (Some (s_dev sb))) st)"
  by (simp add: check_quotactl_permission_def call_security_quotactl_def)

lemma do_quotactl_permitted:
  "type < (if XQM_COMMAND cmd then XQM_MAXQUOTAS else MAXQUOTAS) \<Longrightarrow> s_qcop sb = Some ops \<Longrightarrow>
   check_quotactl_permission env sb type cmd ident st = (r, st1) \<Longrightarrow> 0 \<le> r \<Longrightarrow>
   do_quotactl env sb type cmd ident addr path st =
     (if cmd = Q_QUOTAON then quota_quotaon sb type cmd ident path st1
      else if cmd = Q_QUOTAOFF then
        (case quota_off ops of
           None \<Rightarrow> (Ret (- ENOSYS), st1)
         | Some f \<Rightarrow> (Ret (f type), emit (Qcop (s_dev sb) (QuotaOff type)) st1))
      else if cmd = Q_GETFMT then quota_getfmt env sb type addr st1
      else if cmd = Q_GETINFO then quota_getinfo env sb type addr st1
      else if cmd = Q_SETINFO then quota_setinfo env sb type addr st1
      else if cmd = Q_GETQUOTA then quota_getquota env sb type ident addr st1
      else if cmd = Q_SETQUOTA then quota_setquota env sb type ident addr st1
      else if cmd = Q_SYNC then
        (case quota_sync ops of
           None \<Rightarrow> (Ret (- ENOSYS), st1)
         | Some f \<Rightarrow> (Ret (f type), emit (Qcop (s_dev sb) (QuotaSync type)) st1))
      else if cmd = Q_XQUOTAON \<or> cmd = Q_XQUOTAOFF then quota_setxstate env sb cmd addr st1
      else if cmd = Q_XQUOTARM then quota_rmxquota env sb addr st1
      else if cmd = Q_XGETQSTAT then quota_getxstate env sb addr st1
      else if cmd = Q_XGETQSTATV then quota_getxstatev env sb addr st1
      else if cmd = Q_XSETQLIM then quota_setxquota env sb type ident addr st1
      else if cmd = Q_XGETQUOTA then quota_getxquota env sb type ident addr st1
      else if cmd = Q_XQUOTASYNC then
        (if s_flags sb AND MS_RDONLY \<noteq> 0 then (Ret (- EROFS), st1) else (Ret 0, st1))
      else (Ret (- EINVAL), st1))"
  unfolding do_quotactl_def by (simp cong: if_cong)

lemma check_trace_grows:
  "length (trace st) < length (trace (snd (check_quotactl_permission env sb type cmd ident st)))"
  by (simp add: check_quotactl_permission_def call_security_quotactl_def emit_def Let_def)


lemma copy_to_user_trace: "copy_to_user st a bs = (n, st') \<Longrightarrow> trace st' = trace st"
  by (auto simp add: copy_to_user_def split: prod.splits)

lemma copy_from_user_trace:
  "copy_from_user st a n = (r, st') \<Longrightarrow> trace st' = trace st @ [CopyFromUser a n]"
  by (auto simp add: copy_from_user_def emit_def)

lemmas trace_splits = option.splits prod.splits if_splits path_ptr.splits

lemma quota_quotaon_trace:
  "length (trace st) \<le> length (trace (snd (quota_quotaon sb type cmd ident path st)))"
  by (auto simp add: quota_quotaon_def emit_def split: trace_splits)

lemma quota_getfmt_trace:
  "length (trace st) \<le> length (trace (snd (quota_getfmt env sb type addr st)))"
  by (auto simp add: quota_getfmt_def emit_def Let_def split: trace_splits
        dest!: copy_to_user_trace copy_from_user_trace)

lemma quota_getinfo_trace:
  "length (trace st) \<le> length (trace (snd (quota_getinfo env sb type addr st)))"
  by (auto simp add: quota_getinfo_def emit_def Let_def split: trace_splits
        dest!: copy_to_user_trace copy_from_user_trace)

lemma quota_setinfo_trace:
  "length (trace st) \<le> length (trace (snd (quota_setinfo env sb type addr st)))"
  by (auto simp add: quota_setinfo_def emit_def Let_def split: trace_splits
        dest!: copy_to_user_trace copy_from_user_trace)

lemma quota_getquota_trace:
  "length (trace st) \<le> length (trace (snd (quota_getquota env sb type ident addr st)))"
  by (auto simp add: quota_getquota_def emit_def Let_def split: trace_splits
        dest!: copy_to_user_trace copy_from_user_trace)

lemma quota_setquota_trace:
  "length (trace st) \<le> length (trace (snd (quota_setquota env sb type ident addr st)))"
  by (auto simp add: quota_setquota_def emit_def Let_def split: trace_splits
        dest!: copy_to_user_trace copy_from_user_trace)

lemma quota_setxstate_trace:
  "length (trace st) \<le> length (trace (snd (quota_setxstate env sb cmd addr st)))"
  by (auto simp add: quota_setxstate_def emit_def Let_def split: trace_splits
        dest!: copy_to_user_trace copy_from_user_trace)

lemma quota_getxstate_trace:
  "length (trace st) \<le> length (trace (snd (quota_getxstate env sb addr st)))"
  by (auto simp add: quota_getxstate_def emit_def Let_def split: trace_splits
        dest!: copy_to_user_trace copy_from_user_trace)

lemma quota_getxstatev_trace:
  "length (trace st) \<le> length (trace (snd (quota_getxstatev env sb addr st)))"
  by (auto simp add: quota_getxstatev_def emit_def Let_def split: trace_splits
        dest!: copy_to_user_trace copy_from_user_trace)

lemma quota_setxquota_trace:
  "length (trace st) \<le> length (trace (snd (quota_setxquota env sb type ident addr st)))"
  by (auto simp add: quota_setxquota_def emit_def Let_def split: trace_splits
        dest!: copy_to_user_trace copy_from_user_trace)

lemma quota_getxquota_trace:
  "length (trace st) \<le> length (trace (snd (quota_getxquota env sb type ident addr st)))"
  by (auto simp add: quota_getxquota_def emit_def Let_def split: trace_splits
        dest!: copy_to_user_trace copy_from_user_trace)

lemma quota_rmxquota_trace:
  "length (trace st) \<le> length (trace (snd (quota_rmxquota env sb addr st)))"
  by (auto simp add: quota_rmxquota_def emit_def Let_def split: trace_splits
        dest!: copy_to_user_trace copy_from_user_trace)


lemma snd_if_trace:
  "n \<le> length (trace (snd a)) \<Longrightarrow> n \<le> length (trace (snd b)) \<Longrightarrow>
     n \<le> length (trace (snd (if c then a else b)))"
  by simp

lemma snd_case_option_trace:
  "n \<le> length (trace (snd a)) \<Longrightarrow> (\<And>f. n \<le> length (trace (snd (g f)))) \<Longrightarrow>
     n \<le> length (trace (snd (case x of None \<Rightarrow> a | Some f \<Rightarrow> g f)))"
  by (simp split: option.splits)

lemma do_quotactl_reaches_check:
  assumes lt: "type < (if XQM_COMMAND cmd then XQM_MAXQUOTAS else MAXQUOTAS)"
    and ops: "s_qcop sb = Some ops"
  shows "length (trace st) < length (trace (snd (do_quotactl env sb type cmd ident addr path st)))"
proof -
  obtain r st1 where c: "check_quotactl_permission env sb type cmd ident st = (r, st1)"
    by (cases "check_quotactl_permission env sb type cmd ident st")
  have g: "length (trace st) < length (trace st1)"
    using check_trace_grows [of st env sb type cmd ident] c by simp
  show ?thesis
  proof (cases "r < 0")
    case True
    then show ?thesis using do_quotactl_denied [OF lt ops c] g by simp
  next
    case False
    then have p: "0 \<le> r" by simp
    have "length (trace st1) \<le> length (trace (snd (do_quotactl env sb type cmd ident addr path st)))"
      unfolding do_quotactl_permitted [OF lt ops c p]
      by (intro snd_if_trace snd_case_option_trace quota_quotaon_trace quota_getfmt_trace
            quota_getinfo_trace quota_setinfo_trace quota_getquota_trace quota_setquota_trace
            quota_setxstate_trace quota_getxstate_trace quota_getxstatev_trace
            quota_setxquota_trace quota_getxquota_trace quota_rmxquota_trace)
         (simp_all add: emit_def)
    with g show ?thesis by simp
  qed
qed


text \<open>
  C6: a class index at or above the maximum of the opcode's family (the extended maximum
  for the opcodes \<^verbatim>\<open>XQM_COMMAND\<close> recognises, which are the eight extended opcodes and none
  of the eight basic ones; the basic maximum otherwise) is rejected with \<^verbatim>\<open>-EINVAL\<close> and
  an unchanged state: no permission check, no capability call. A class index one below
  the maximum passes: the rest of the dispatcher decides. That is \<^verbatim>\<open>-ENOSYS\<close> for a
  filesystem without a quota table; otherwise the permission check runs (the trace grows),
  its denial is the result, and a request it does not deny is dispatched on its opcode,
  in the state the permission check left, exactly as the \<^verbatim>\<open>switch\<close> says.
\<close>

theorem class_index_validation:
  "(XQM_COMMAND cmd \<and> XQM_MAXQUOTAS \<le> type \<longrightarrow>
      do_quotactl env sb type cmd ident addr path st = (Ret (- EINVAL), st))
   \<and> (\<not> XQM_COMMAND cmd \<and> MAXQUOTAS \<le> type \<longrightarrow>
      do_quotactl env sb type cmd ident addr path st = (Ret (- EINVAL), st))
   \<and> (type = (if XQM_COMMAND cmd then XQM_MAXQUOTAS else MAXQUOTAS) - 1 \<and> s_qcop sb = None \<longrightarrow>
      do_quotactl env sb type cmd ident addr path st = (Ret (- ENOSYS), st))
   \<and> (type = (if XQM_COMMAND cmd then XQM_MAXQUOTAS else MAXQUOTAS) - 1 \<and> s_qcop sb \<noteq> None
      \<and> fst (check_quotactl_permission env sb type cmd ident st) < 0 \<longrightarrow>
      do_quotactl env sb type cmd ident addr path st
        = (Ret (fst (check_quotactl_permission env sb type cmd ident st)),
           snd (check_quotactl_permission env sb type cmd ident st)))
   \<and> (type = (if XQM_COMMAND cmd then XQM_MAXQUOTAS else MAXQUOTAS) - 1 \<and> s_qcop sb = Some ops
      \<and> 0 \<le> fst (check_quotactl_permission env sb type cmd ident st) \<longrightarrow>
      do_quotactl env sb type cmd ident addr path st
        = (let st1 = snd (check_quotactl_permission env sb type cmd ident st) in
            (if cmd = Q_QUOTAON then quota_quotaon sb type cmd ident path st1
             else if cmd = Q_QUOTAOFF then
               (case quota_off ops of
                  None \<Rightarrow> (Ret (- ENOSYS), st1)
                | Some f \<Rightarrow> (Ret (f type), emit (Qcop (s_dev sb) (QuotaOff type)) st1))
             else if cmd = Q_GETFMT then quota_getfmt env sb type addr st1
             else if cmd = Q_GETINFO then quota_getinfo env sb type addr st1
             else if cmd = Q_SETINFO then quota_setinfo env sb type addr st1
             else if cmd = Q_GETQUOTA then quota_getquota env sb type ident addr st1
             else if cmd = Q_SETQUOTA then quota_setquota env sb type ident addr st1
             else if cmd = Q_SYNC then
               (case quota_sync ops of
                  None \<Rightarrow> (Ret (- ENOSYS), st1)
                | Some f \<Rightarrow> (Ret (f type), emit (Qcop (s_dev sb) (QuotaSync type)) st1))
             else if cmd = Q_XQUOTAON \<or> cmd = Q_XQUOTAOFF then
               quota_setxstate env sb cmd addr st1
             else if cmd = Q_XQUOTARM then quota_rmxquota env sb addr st1
             else if cmd = Q_XGETQSTAT then quota_getxstate env sb addr st1
             else if cmd = Q_XGETQSTATV then quota_getxstatev env sb addr st1
             else if cmd = Q_XSETQLIM then quota_setxquota env sb type ident addr st1
             else if cmd = Q_XGETQUOTA then quota_getxquota env sb type ident addr st1
             else if cmd = Q_XQUOTASYNC then
               (if s_flags sb AND MS_RDONLY \<noteq> 0 then (Ret (- EROFS), st1) else (Ret 0, st1))
             else (Ret (- EINVAL), st1))))
   \<and> (type = (if XQM_COMMAND cmd then XQM_MAXQUOTAS else MAXQUOTAS) - 1 \<and> s_qcop sb \<noteq> None
      \<longrightarrow> length (trace st)
            < length (trace (snd (do_quotactl env sb type cmd ident addr path st))))
   \<and> XQM_COMMAND Q_XQUOTAON \<and> XQM_COMMAND Q_XQUOTAOFF \<and> XQM_COMMAND Q_XGETQUOTA
   \<and> XQM_COMMAND Q_XSETQLIM \<and> XQM_COMMAND Q_XGETQSTAT \<and> XQM_COMMAND Q_XQUOTARM
   \<and> XQM_COMMAND Q_XQUOTASYNC \<and> XQM_COMMAND Q_XGETQSTATV
   \<and> \<not> XQM_COMMAND Q_SYNC \<and> \<not> XQM_COMMAND Q_QUOTAON \<and> \<not> XQM_COMMAND Q_QUOTAOFF
   \<and> \<not> XQM_COMMAND Q_GETFMT \<and> \<not> XQM_COMMAND Q_GETINFO \<and> \<not> XQM_COMMAND Q_SETINFO
   \<and> \<not> XQM_COMMAND Q_GETQUOTA \<and> \<not> XQM_COMMAND Q_SETQUOTA"
proof -
  have a: "XQM_COMMAND cmd \<and> XQM_MAXQUOTAS \<le> type \<longrightarrow>
      do_quotactl env sb type cmd ident addr path st = (Ret (- EINVAL), st)"
    by (simp add: do_quotactl_reject)
  have b: "\<not> XQM_COMMAND cmd \<and> MAXQUOTAS \<le> type \<longrightarrow>
      do_quotactl env sb type cmd ident addr path st = (Ret (- EINVAL), st)"
    by (simp add: do_quotactl_reject)
  have c: "type = (if XQM_COMMAND cmd then XQM_MAXQUOTAS else MAXQUOTAS) - 1 \<and> s_qcop sb = None \<longrightarrow>
      do_quotactl env sb type cmd ident addr path st = (Ret (- ENOSYS), st)"
    by (simp add: do_quotactl_no_qcop)
  have d: "type = (if XQM_COMMAND cmd then XQM_MAXQUOTAS else MAXQUOTAS) - 1 \<and> s_qcop sb \<noteq> None
      \<and> fst (check_quotactl_permission env sb type cmd ident st) < 0 \<longrightarrow>
      do_quotactl env sb type cmd ident addr path st
        = (Ret (fst (check_quotactl_permission env sb type cmd ident st)),
           snd (check_quotactl_permission env sb type cmd ident st))"
  proof (intro impI, elim conjE)
    assume t: "type = (if XQM_COMMAND cmd then XQM_MAXQUOTAS else MAXQUOTAS) - 1"
      and q: "s_qcop sb \<noteq> None"
      and r: "fst (check_quotactl_permission env sb type cmd ident st) < 0"
    from q obtain ops where ops: "s_qcop sb = Some ops" by auto
    from t have lt: "type < (if XQM_COMMAND cmd then XQM_MAXQUOTAS else MAXQUOTAS)" by simp
    show "do_quotactl env sb type cmd ident addr path st
        = (Ret (fst (check_quotactl_permission env sb type cmd ident st)),
           snd (check_quotactl_permission env sb type cmd ident st))"
      by (rule do_quotactl_denied [OF lt ops _ r]) simp
  qed
  have e: "type = (if XQM_COMMAND cmd then XQM_MAXQUOTAS else MAXQUOTAS) - 1 \<and> s_qcop sb = Some ops
      \<and> 0 \<le> fst (check_quotactl_permission env sb type cmd ident st) \<longrightarrow>
      do_quotactl env sb type cmd ident addr path st
        = (let st1 = snd (check_quotactl_permission env sb type cmd ident st) in
            (if cmd = Q_QUOTAON then quota_quotaon sb type cmd ident path st1
             else if cmd = Q_QUOTAOFF then
               (case quota_off ops of
                  None \<Rightarrow> (Ret (- ENOSYS), st1)
                | Some f \<Rightarrow> (Ret (f type), emit (Qcop (s_dev sb) (QuotaOff type)) st1))
             else if cmd = Q_GETFMT then quota_getfmt env sb type addr st1
             else if cmd = Q_GETINFO then quota_getinfo env sb type addr st1
             else if cmd = Q_SETINFO then quota_setinfo env sb type addr st1
             else if cmd = Q_GETQUOTA then quota_getquota env sb type ident addr st1
             else if cmd = Q_SETQUOTA then quota_setquota env sb type ident addr st1
             else if cmd = Q_SYNC then
               (case quota_sync ops of
                  None \<Rightarrow> (Ret (- ENOSYS), st1)
                | Some f \<Rightarrow> (Ret (f type), emit (Qcop (s_dev sb) (QuotaSync type)) st1))
             else if cmd = Q_XQUOTAON \<or> cmd = Q_XQUOTAOFF then
               quota_setxstate env sb cmd addr st1
             else if cmd = Q_XQUOTARM then quota_rmxquota env sb addr st1
             else if cmd = Q_XGETQSTAT then quota_getxstate env sb addr st1
             else if cmd = Q_XGETQSTATV then quota_getxstatev env sb addr st1
             else if cmd = Q_XSETQLIM then quota_setxquota env sb type ident addr st1
             else if cmd = Q_XGETQUOTA then quota_getxquota env sb type ident addr st1
             else if cmd = Q_XQUOTASYNC then
               (if s_flags sb AND MS_RDONLY \<noteq> 0 then (Ret (- EROFS), st1) else (Ret 0, st1))
             else (Ret (- EINVAL), st1)))"
  proof (intro impI, elim conjE)
    assume t: "type = (if XQM_COMMAND cmd then XQM_MAXQUOTAS else MAXQUOTAS) - 1"
      and ops: "s_qcop sb = Some ops"
      and r: "0 \<le> fst (check_quotactl_permission env sb type cmd ident st)"
    from t have lt: "type < (if XQM_COMMAND cmd then XQM_MAXQUOTAS else MAXQUOTAS)" by simp
    have c: "check_quotactl_permission env sb type cmd ident st
               = (fst (check_quotactl_permission env sb type cmd ident st),
                  snd (check_quotactl_permission env sb type cmd ident st))"
      by simp
    show "do_quotactl env sb type cmd ident addr path st
        = (let st1 = snd (check_quotactl_permission env sb type cmd ident st) in
            (if cmd = Q_QUOTAON then quota_quotaon sb type cmd ident path st1
             else if cmd = Q_QUOTAOFF then
               (case quota_off ops of
                  None \<Rightarrow> (Ret (- ENOSYS), st1)
                | Some f \<Rightarrow> (Ret (f type), emit (Qcop (s_dev sb) (QuotaOff type)) st1))
             else if cmd = Q_GETFMT then quota_getfmt env sb type addr st1
             else if cmd = Q_GETINFO then quota_getinfo env sb type addr st1
             else if cmd = Q_SETINFO then quota_setinfo env sb type addr st1
             else if cmd = Q_GETQUOTA then quota_getquota env sb type ident addr st1
             else if cmd = Q_SETQUOTA then quota_setquota env sb type ident addr st1
             else if cmd = Q_SYNC then
               (case quota_sync ops of
                  None \<Rightarrow> (Ret (- ENOSYS), st1)
                | Some f \<Rightarrow> (Ret (f type), emit (Qcop (s_dev sb) (QuotaSync type)) st1))
             else if cmd = Q_XQUOTAON \<or> cmd = Q_XQUOTAOFF then
               quota_setxstate env sb cmd addr st1
             else if cmd = Q_XQUOTARM then quota_rmxquota env sb addr st1
             else if cmd = Q_XGETQSTAT then quota_getxstate env sb addr st1
             else if cmd = Q_XGETQSTATV then quota_getxstatev env sb addr st1
             else if cmd = Q_XSETQLIM then quota_setxquota env sb type ident addr st1
             else if cmd = Q_XGETQUOTA then quota_getxquota env sb type ident addr st1
             else if cmd = Q_XQUOTASYNC then
               (if s_flags sb AND MS_RDONLY \<noteq> 0 then (Ret (- EROFS), st1) else (Ret 0, st1))
             else (Ret (- EINVAL), st1)))"
      unfolding Let_def by (rule do_quotactl_permitted [OF lt ops c r])
  qed
  have f: "type = (if XQM_COMMAND cmd then XQM_MAXQUOTAS else MAXQUOTAS) - 1 \<and> s_qcop sb \<noteq> None
      \<longrightarrow> length (trace st)
            < length (trace (snd (do_quotactl env sb type cmd ident addr path st)))"
  proof (intro impI, elim conjE)
    assume t: "type = (if XQM_COMMAND cmd then XQM_MAXQUOTAS else MAXQUOTAS) - 1"
      and q: "s_qcop sb \<noteq> None"
    from q obtain ops' where ops: "s_qcop sb = Some ops'" by auto
    from t have lt: "type < (if XQM_COMMAND cmd then XQM_MAXQUOTAS else MAXQUOTAS)" by simp
    show "length (trace st)
            < length (trace (snd (do_quotactl env sb type cmd ident addr path st)))"
      by (rule do_quotactl_reaches_check [OF lt ops])
  qed
  show ?thesis
    by (intro conjI a b c d e f) (simp_all add: XQM_COMMAND_opcodes)
qed



theorem class_index_validation_witness:
  "XQM_COMMAND Q_XGETQSTAT \<and> XQM_MAXQUOTAS \<le> 3
   \<and> do_quotactl ex_env ex_sb 3 Q_XGETQSTAT 0 64 PathNull ex_st = (Ret (- EINVAL), ex_st)
   \<and> \<not> XQM_COMMAND Q_GETFMT \<and> MAXQUOTAS \<le> 2
   \<and> do_quotactl ex_env ex_sb 2 Q_GETFMT 0 64 PathNull ex_st = (Ret (- EINVAL), ex_st)
   \<and> s_qcop ex_sb_plain = None
   \<and> do_quotactl ex_env ex_sb_plain 2 Q_XGETQSTAT 0 64 PathNull ex_st = (Ret (- ENOSYS), ex_st)
   \<and> s_qcop ex_sb \<noteq> None
   \<and> fst (check_quotactl_permission ex_env ex_sb 1 Q_SETQUOTA 0 ex_st) < 0
   \<and> do_quotactl ex_env ex_sb 1 Q_SETQUOTA 0 64 PathNull ex_st
       = (Ret (- EPERM), emit (Capable CAP_SYS_ADMIN) ex_st)
   \<and> 0 \<le> fst (check_quotactl_permission ex_env ex_sb 1 Q_GETFMT 0 ex_st)
   \<and> fst (do_quotactl ex_env ex_sb 1 Q_GETFMT 0 64 PathNull ex_st) = Ret 0
   \<and> trace (snd (do_quotactl ex_env ex_sb 1 Q_GETFMT 0 64 PathNull ex_st))
       = [SecurityQuotactl Q_GETFMT 1 0 (Some 1)]
   \<and> 0 \<le> fst (check_quotactl_permission ex_env ex_sb 2 Q_XQUOTASYNC 0 ex_st)
   \<and> do_quotactl ex_env ex_sb 2 Q_XQUOTASYNC 0 64 PathNull ex_st
       = (Ret 0, emit (SecurityQuotactl Q_XQUOTASYNC 2 0 (Some 1)) ex_st)"
  using class_index_validation
          [where env = ex_env and sb = ex_sb and type = 3 and cmd = Q_XGETQSTAT and ident = 0
             and addr = 64 and path = PathNull and st = ex_st]
        class_index_validation
          [where env = ex_env and sb = ex_sb and type = 2 and cmd = Q_GETFMT and ident = 0
             and addr = 64 and path = PathNull and st = ex_st]
        class_index_validation
          [where env = ex_env and sb = ex_sb_plain and type = 2 and cmd = Q_XGETQSTAT and ident = 0
             and addr = 64 and path = PathNull and st = ex_st]
        class_index_validation
          [where env = ex_env and sb = ex_sb and type = 1 and cmd = Q_SETQUOTA and ident = 0
             and addr = 64 and path = PathNull and st = ex_st]
        class_index_validation
          [where env = ex_env and sb = ex_sb and ops = ex_ops and type = 1 and cmd = Q_GETFMT
             and ident = 0 and addr = 64 and path = PathNull and st = ex_st]
        class_index_validation
          [where env = ex_env and sb = ex_sb and ops = ex_ops and type = 2
             and cmd = Q_XQUOTASYNC and ident = 0 and addr = 64 and path = PathNull
             and st = ex_st]
  by (simp add: XQM_MAXQUOTAS_def MAXQUOTAS_def ex_sb_def ex_sb_plain_def
        check_quotactl_permission_def call_security_quotactl_def ex_env_def cmd_defs EPERM_def
        Let_def quota_getfmt_def copy_to_user_def ex_codec_def ex_st_def emit_def)

text \<open>
  C9, as stated, fails: an extended-sync request on a read-only filesystem that the
  security hook denies gets the hook's error, not the read-only error.
\<close>

theorem xquotasync_hook_denies_counterexample:
  "s_flags ex_sb_ro AND MS_RDONLY \<noteq> 0
   \<and> do_quotactl ex_env_deny ex_sb_ro 0 Q_XQUOTASYNC 0 0 PathNull ex_st
       = (Ret (- 13), emit (SecurityQuotactl Q_XQUOTASYNC 0 0 (Some 1)) ex_st)
   \<and> - 13 \<noteq> - EROFS"
  by (simp add: do_quotactl_denied [where ops = ex_ops] check_xquotasync XQM_COMMAND_opcodes
        XQM_MAXQUOTAS_def ex_sb_ro_def ex_sb_def ex_env_deny_def MS_RDONLY_def EROFS_def)

text \<open>
  C9, amended: for every extended-sync request on a resolved target whose class index is
  below the extended maximum, whose filesystem has a quota capability table and which the
  security hook does not deny, the dispatcher returns \<^verbatim>\<open>-EROFS\<close> if the filesystem is
  mounted read-only and success otherwise; the only event is the consultation of the
  hook, so no operation of the capability table is invoked and user memory is untouched.
\<close>

theorem xquotasync_on_target:
  assumes "type < XQM_MAXQUOTAS" and "s_qcop sb = Some ops"
    and "0 \<le> security_quotactl env Q_XQUOTASYNC type ident (Some (s_dev sb))"
  shows "do_quotactl env sb type Q_XQUOTASYNC ident addr path st
     = (Ret (if s_flags sb AND MS_RDONLY \<noteq> 0 then - EROFS else 0),
        emit (SecurityQuotactl Q_XQUOTASYNC type ident (Some (s_dev sb))) st)"
  using do_quotactl_xquotasync [OF assms(1) assms(2) check_xquotasync assms(3)] .

theorem xquotasync_on_target_witness:
  "(2 :: int) < XQM_MAXQUOTAS \<and> s_qcop ex_sb_ro = Some ex_ops \<and> s_qcop ex_sb = Some ex_ops
   \<and> 0 \<le> security_quotactl ex_env Q_XQUOTASYNC 2 0 (Some 1)
   \<and> do_quotactl ex_env ex_sb_ro 2 Q_XQUOTASYNC 0 0 PathNull ex_st
       = (Ret (- EROFS), emit (SecurityQuotactl Q_XQUOTASYNC 2 0 (Some 1)) ex_st)
   \<and> do_quotactl ex_env ex_sb 2 Q_XQUOTASYNC 0 0 PathNull ex_st
       = (Ret 0, emit (SecurityQuotactl Q_XQUOTASYNC 2 0 (Some 1)) ex_st)"
  using xquotasync_on_target
          [where env = ex_env and sb = ex_sb_ro and ops = ex_ops and type = 2 and ident = 0
             and addr = 0 and path = PathNull and st = ex_st]
        xquotasync_on_target
          [where env = ex_env and sb = ex_sb and ops = ex_ops and type = 2 and ident = 0
             and addr = 0 and path = PathNull and st = ex_st]
  by (simp add: XQM_MAXQUOTAS_def ex_sb_ro_def ex_sb_def ex_env_def MS_RDONLY_def)

subsection \<open>Versioned extended state\<close>

text \<open>
  C7, as stated, fails: on a filesystem without the versioned-state capability a request
  with the unrecognised version 2 returns \<^verbatim>\<open>-ENOSYS\<close>, not \<^verbatim>\<open>-EINVAL\<close>; the capability
  is looked for before the version is read.
\<close>

theorem getxstatev_no_capability_counterexample:
  "umem ex_st 64 = Some 2 \<and> 2 \<noteq> FS_QSTATV_VERSION1
   \<and> quota_getxstatev ex_env ex_sb_nostatv 64 ex_st = (Ret (- ENOSYS), ex_st)
   \<and> - ENOSYS \<noteq> - EINVAL"
  by (simp add: quota_getxstatev_def ex_st_def FS_QSTATV_VERSION1_def ex_sb_nostatv_def
        ex_sb_def ENOSYS_def EINVAL_def)

text \<open>
  C7, amended: for every get-extended-state-versioned request on a filesystem that
  provides the versioned-state capability, whose version byte is readable and is not a
  recognised version, the operation returns \<^verbatim>\<open>-EINVAL\<close>; the capability is not invoked,
  one byte (the version) is read from the caller's buffer and nothing is written to it.
\<close>

theorem getxstatev_unknown_version:
  assumes "s_qcop sb = Some ops" and "get_xstatev ops = Some f"
    and "umem st addr = Some v" and "v \<noteq> FS_QSTATV_VERSION1"
  shows "quota_getxstatev env sb addr st
           = (Ret (- EINVAL), st \<lparr> trace := trace st @ [CopyFromUser addr 1] \<rparr>)"
  using assms by (simp add: quota_getxstatev_def copy_from_user_def emit_def Let_def)

theorem getxstatev_unknown_version_witness:
  "s_qcop ex_sb = Some ex_ops \<and> get_xstatev ex_ops = Some (\<lambda>s. (0, s))
   \<and> umem ex_st 64 = Some 2 \<and> 2 \<noteq> FS_QSTATV_VERSION1
   \<and> quota_getxstatev ex_env ex_sb 64 ex_st
       = (Ret (- EINVAL), ex_st \<lparr> trace := trace ex_st @ [CopyFromUser 64 1] \<rparr>)"
  using getxstatev_unknown_version
          [where sb = ex_sb and ops = ex_ops and f = "\<lambda>s. (0, s)" and st = ex_st and addr = 64
             and v = 2 and env = ex_env]
  by (simp add: ex_sb_def ex_ops_def ex_st_def FS_QSTATV_VERSION1_def)

subsection \<open>Broadcast sync\<close>

lemma quota_sync_one_eq:
  "quota_sync_one sb t st =
     (if exposes_sync sb then emit (Qcop (s_dev sb) (QuotaSync t)) st else st)"
  by (simp add: quota_sync_one_def exposes_sync_def split: option.splits)

lemma fold_sync_trace:
  "trace (fold (\<lambda>sb. quota_sync_one sb t) sbs st)
     = trace st @ map (\<lambda>sb. Qcop (s_dev sb) (QuotaSync t)) (filter exposes_sync sbs)"
  by (induction sbs arbitrary: st) (simp_all add: quota_sync_one_eq emit_def)

lemma fold_sync_umem:
  "umem (fold (\<lambda>sb. quota_sync_one sb t) sbs st) = umem st"
  by (induction sbs arbitrary: st) (simp_all add: quota_sync_one_eq emit_def)

text \<open>
  The system call hands a sync opcode without a target path to \<^verbatim>\<open>quota_sync_all\<close>, with
  the class taken from the low byte of the command.
\<close>

lemma sys_quotactl_broadcast:
  assumes "drop_bit SUBCMDSHIFT cmd = Q_SYNC"
  shows "sys_quotactl env cmd 0 ident addr st
           = (Ret (fst (quota_sync_all env (sint (cmd AND SUBCMDMASK)) st)),
              snd (quota_sync_all env (sint (cmd AND SUBCMDMASK)) st))"
  by (subst sys_quotactl.simps) (simp add: assms Q_SYNC_def split: prod.splits)

text \<open>
  C8: a broadcast sync with a class at or above the basic maximum returns \<^verbatim>\<open>-EINVAL\<close>
  with an unchanged state. Otherwise the hook is consulted once, with no superblock; if it
  denies, its verdict is returned and nothing else happens; if it permits, every mounted
  filesystem is visited in order, the sync capability is called on exactly those that
  expose it, and the result is success whatever those calls return.
\<close>

theorem broadcast_sync:
  "(MAXQUOTAS \<le> type \<longrightarrow> quota_sync_all env type st = (- EINVAL, st))
   \<and> (type < MAXQUOTAS \<and> security_quotactl env Q_SYNC type 0 None \<noteq> 0 \<longrightarrow>
        quota_sync_all env type st
          = (security_quotactl env Q_SYNC type 0 None,
             st \<lparr> trace := trace st @ [SecurityQuotactl Q_SYNC type 0 None] \<rparr>))
   \<and> (type < MAXQUOTAS \<and> security_quotactl env Q_SYNC type 0 None = 0 \<longrightarrow>
        fst (quota_sync_all env type st) = 0
        \<and> umem (snd (quota_sync_all env type st)) = umem st
        \<and> trace (snd (quota_sync_all env type st))
            = trace st @ SecurityQuotactl Q_SYNC type 0 None
                # map (\<lambda>sb. Qcop (s_dev sb) (QuotaSync type)) (filter exposes_sync (supers env)))"
  by (simp add: quota_sync_all_def call_security_quotactl_def iterate_supers_def
        fold_sync_trace fold_sync_umem emit_def)

theorem broadcast_sync_witness:
  "MAXQUOTAS \<le> 99 \<and> quota_sync_all ex_env 99 ex_st = (- EINVAL, ex_st)
   \<and> (1 :: int) < MAXQUOTAS \<and> security_quotactl ex_env_deny Q_SYNC 1 0 None \<noteq> 0
   \<and> quota_sync_all ex_env_deny 1 ex_st
       = (- 13, ex_st \<lparr> trace := [SecurityQuotactl Q_SYNC 1 0 None] \<rparr>)
   \<and> security_quotactl ex_env Q_SYNC 1 0 None = 0
   \<and> fst (quota_sync_all ex_env 1 ex_st) = 0
   \<and> trace (snd (quota_sync_all ex_env 1 ex_st))
       = [SecurityQuotactl Q_SYNC 1 0 None, Qcop 1 (QuotaSync 1)]"
  using broadcast_sync [of 99 ex_env ex_st] broadcast_sync [of 1 ex_env_deny ex_st]
        broadcast_sync [of 1 ex_env ex_st]
  by (simp add: MAXQUOTAS_def ex_env_deny_def ex_env_def ex_st_def exposes_sync_def ex_sb_def
        ex_sb_plain_def ex_ops_def)

subsection \<open>Enabling quotas\<close>

text \<open>
  C10: on a filesystem with a capability table, enable-quota returns \<^verbatim>\<open>-ENOSYS\<close> when
  the table has neither enable operation; when it has the metadata-based one, that
  operation is called and its result returned whatever the path argument is, a failed
  path resolution included; and a failed path resolution is the result only when the
  metadata-based operation is absent (and the path-based one is then not called).
\<close>

theorem quotaon_paths:
  assumes "s_qcop sb = Some ops"
  shows "(quota_on ops = None \<and> quota_on_meta ops = None \<longrightarrow>
           quota_quotaon sb type cmd ident path st = (Ret (- ENOSYS), st))
       \<and> (quota_on_meta ops = Some f \<longrightarrow>
           quota_quotaon sb type cmd ident path st
             = (Ret (f type ident), emit (Qcop (s_dev sb) (QuotaOnMeta type ident)) st))
       \<and> (quota_on_meta ops = None \<and> quota_on ops = Some g \<longrightarrow>
           quota_quotaon sb type cmd ident (PathErr e) st = (Ret e, st))"
  using assms by (simp add: quota_quotaon_def)

theorem quotaon_paths_witness:
  "quota_quotaon ex_sb_meta 0 Q_QUOTAON 2 (PathErr (- 2)) ex_st
     = (Ret (- 16), emit (Qcop 1 (QuotaOnMeta 0 2)) ex_st)
   \<and> quota_quotaon ex_sb 0 Q_QUOTAON 2 (PathErr (- 2)) ex_st = (Ret (- 2), ex_st)
   \<and> quota_quotaon (ex_sb \<lparr> s_qcop := Some (ex_ops \<lparr> quota_on := None \<rparr>) \<rparr>) 0 Q_QUOTAON 2
        (PathOk ''/aquota.user'') ex_st = (Ret (- ENOSYS), ex_st)"
  using quotaon_paths
          [where sb = ex_sb_meta and ops = "ex_ops \<lparr> quota_on_meta := Some (\<lambda>t i. - 16) \<rparr>"
             and f = "\<lambda>t i. - 16" and type = 0 and cmd = Q_QUOTAON and ident = 2
             and path = "PathErr (- 2)" and st = ex_st]
        quotaon_paths
          [where sb = ex_sb and ops = ex_ops and g = "\<lambda>t i p. 0" and type = 0
             and cmd = Q_QUOTAON and ident = 2 and e = "- 2" and st = ex_st]
        quotaon_paths
          [where sb = "ex_sb \<lparr> s_qcop := Some (ex_ops \<lparr> quota_on := None \<rparr>) \<rparr>"
             and ops = "ex_ops \<lparr> quota_on := None \<rparr>" and type = 0 and cmd = Q_QUOTAON
             and ident = 2 and path = "PathOk ''/aquota.user''" and st = ex_st]
  by (simp add: ex_sb_meta_def ex_sb_def ex_ops_def)

subsection \<open>The legacy entry\<close>

text \<open>
  C1 does not hold of the code. The legacy set commands check permission for the opcode
  get-record instead of set-record or set-info. In the concrete system the unprivileged
  caller 1000 is denied set-record and set-info by the primary rule, yet \<^verbatim>\<open>QC_SETQUOTA\<close>
  and \<^verbatim>\<open>QC_SETINFO\<close> on the caller's own uid reach \<^verbatim>\<open>set_dqblk\<close> and \<^verbatim>\<open>set_info\<close>.
\<close>

theorem compat_set_reaches_capability:
  "check_quotactl_permission ex_env ex_sb 0 Q_SETQUOTA 1000 ex_st
     = (- EPERM, emit (Capable CAP_SYS_ADMIN) ex_st)
   \<and> compat_quotactl ex_env QC_SETQUOTA 0 7 1000 64 ex_st
       = (Ret 0, ex_st \<lparr> trace :=
            [SecurityQuotactl Q_GETQUOTA 0 1000 (Some 1), CopyFromUser 64 2,
             Qcop 1 (SetDqblk \<lparr> kq_type = 0, kq_id = 1000 \<rparr> ex_set_fdq), DropSuper 1] \<rparr>)
   \<and> check_quotactl_permission ex_env ex_sb 0 Q_SETINFO 1000 ex_st
       = (- EPERM, emit (Capable CAP_SYS_ADMIN) ex_st)
   \<and> compat_quotactl ex_env QC_SETINFO 0 7 1000 64 ex_st
       = (Ret 0, ex_st \<lparr> trace :=
            [SecurityQuotactl Q_GETQUOTA 0 1000 (Some 1), CopyFromUser 64 2,
             Qcop 1 (SetInfo 0 (ex_info \<lparr> dqi_valid := 7 \<rparr>)), DropSuper 1] \<rparr>)"
proof -
  have p1: "check_quotactl_permission ex_env ex_sb 0 Q_SETQUOTA 1000 ex_st
              = (- EPERM, emit (Capable CAP_SYS_ADMIN) ex_st)"
    by (simp add: check_quotactl_permission_def cmd_defs ex_env_def)
  have p2: "check_quotactl_permission ex_env ex_sb 0 Q_SETINFO 1000 ex_st
              = (- EPERM, emit (Capable CAP_SYS_ADMIN) ex_st)"
    by (simp add: check_quotactl_permission_def cmd_defs ex_env_def)
  have g: "check_quotactl_permission ex_env ex_sb 0 Q_GETQUOTA 1000 ex_st
             = (0, ex_st \<lparr> trace := [SecurityQuotactl Q_GETQUOTA 0 1000 (Some 1)] \<rparr>)"
    by (simp add: check_quotactl_permission_def call_security_quotactl_def cmd_defs ex_env_def
          USRQUOTA_def ex_sb_def ex_st_def emit_def)
  have b: "quotactl_block ex_env st 7 c = Inr ex_sb" for st c
    by (simp add: quotactl_block_def ex_env_def)
  have c1: "compat_quotactl ex_env QC_SETQUOTA 0 7 1000 64 ex_st
       = (Ret 0, ex_st \<lparr> trace :=
            [SecurityQuotactl Q_GETQUOTA 0 1000 (Some 1), CopyFromUser 64 2,
             Qcop 1 (SetDqblk \<lparr> kq_type = 0, kq_id = 1000 \<rparr> ex_set_fdq), DropSuper 1] \<rparr>)"
    apply (subst compat_quotactl.simps)
    apply (simp add: qc_defs compat_setquota_def b g)
    apply (simp add: qc_defs ex_env_def ex_st_def emit_def
      copy_from_user_def ex_codec_def ex_sb_def ex_ops_def compat_out_def Let_def
      copy_from_if_dqblk_def or_if_def ex_set_fdq_def ex_idq_def ex_fdq_def ex_cdq_def
      QIF_LIMITS_def QIF_USAGE_def QIF_BLIMITS_def QIF_SPACE_def QIF_ILIMITS_def QIF_INODES_def
      QIF_BTIME_def QIF_ITIME_def FS_DQ_BSOFT_def FS_DQ_BHARD_def FS_DQ_ISOFT_def
      FS_DQ_IHARD_def FS_DQ_BCOUNT_def FS_DQ_ICOUNT_def FS_DQ_BTIMER_def FS_DQ_ITIMER_def)
    done
  have c2: "compat_quotactl ex_env QC_SETINFO 0 7 1000 64 ex_st
       = (Ret 0, ex_st \<lparr> trace :=
            [SecurityQuotactl Q_GETQUOTA 0 1000 (Some 1), CopyFromUser 64 2,
             Qcop 1 (SetInfo 0 (ex_info \<lparr> dqi_valid := 7 \<rparr>)), DropSuper 1] \<rparr>)"
    apply (subst compat_quotactl.simps)
    apply (simp add: qc_defs compat_setinfo_def b g)
    apply (simp add: qc_defs ex_env_def ex_st_def emit_def
      copy_from_user_def ex_codec_def ex_sb_def ex_ops_def compat_out_def Let_def
      ex_info_def ex_cinf_def IIF_BGRACE_def IIF_IGRACE_def IIF_FLAGS_def)
    done
  from p1 c1 p2 c2 show ?thesis by simp
qed


end
